theory Spec2Isabelle
  imports Complex_Main "HOL-Library.AList" "HOL-Library.Multiset"
begin

section \<open>Numbers of the language\<close>

text \<open>
  A number of the language is an IEEE double: a finite value, an infinity or \<^verbatim>\<open>NaN\<close>.
  A finite double is written \<open>Fin r\<close> with its exact value \<open>r\<close>. The two zeros of IEEE
  are one value here; they differ only as divisors, and every divisor of the code below
  is a sum that starts from \<^verbatim>\<open>+0\<close>, which is never \<^verbatim>\<open>-0\<close>.
\<close>

datatype jsnum = Fin rat | PosInf | NegInf | NaN

text \<open>
  Every arithmetic operation computes the exact result and rounds it to a double. The
  rounding is a component of the runtime the code runs on (below), so that a property
  proved for every runtime holds for IEEE arithmetic, and a property of exact arithmetic
  is a property of the runtime that rounds nothing. \<open>binary64\<close> is the rounding of IEEE
  double precision: to the nearest double, a tie to the even one, beyond the largest
  double to an infinity.
\<close>

definition pow2 :: "int \<Rightarrow> rat" where
  "pow2 k = (if 0 \<le> k then 2 ^ nat k else 1 / 2 ^ nat (- k))"

text \<open>
  The exponent of a positive value: the largest \<open>e\<close> between -1022 and 1023 with
  \<open>2^e \<le> a\<close>, and -1022 below the normal range.
\<close>

definition exponent_of :: "rat \<Rightarrow> int" where
  "exponent_of a =
     (let es = filter (\<lambda>e. pow2 e \<le> a) [- 1022..1023]
      in if es = [] then - 1022 else last es)"

definition round_half_even :: "rat \<Rightarrow> int" where
  "round_half_even x =
     (let f = \<lfloor>x\<rfloor>
      in if x - of_int f < 1 / 2 then f
         else if 1 / 2 < x - of_int f then f + 1
         else if even f then f else f + 1)"

definition binary64 :: "rat \<Rightarrow> jsnum" where
  "binary64 r =
     (if r = 0 then Fin 0
      else
        (let a = \<bar>r\<bar>;
             q = pow2 (exponent_of a - 52);
             m = of_int (round_half_even (a / q)) * q
         in if pow2 1024 \<le> m then (if 0 < r then PosInf else NegInf)
            else Fin (if 0 < r then m else - m)))"

definition exact :: "rat \<Rightarrow> jsnum" where
  "exact r = Fin r"

section \<open>Dates and the runtime\<close>

text \<open>
  A date of the data layer is a calendar day, the text \<^verbatim>\<open>YYYY-MM-DD\<close> of a date column.
  \<^verbatim>\<open>new Date(text)\<close> is the instant of that day's midnight in UTC, and its accessors
  \<^verbatim>\<open>getFullYear\<close>, \<^verbatim>\<open>getMonth\<close> (0 = January) and \<^verbatim>\<open>getDay\<close> (0 = Sunday) read the
  calendar day of that instant in the local time zone: the same day at or east of UTC,
  the day before west of it. Which local day a date text falls on is a component of the
  runtime.
\<close>

record calendar_date =
  year :: int
  month :: int
  day :: int

text \<open>
  The runtime: the rounding of arithmetic (the double nearest to an exact result) and the
  local day of a date text.
\<close>

record runtime =
  to_double :: "rat \<Rightarrow> jsnum"
  local_day :: "calendar_date \<Rightarrow> calendar_date"

definition getFullYear :: "calendar_date \<Rightarrow> int" where
  "getFullYear d = year d"

definition getMonth :: "calendar_date \<Rightarrow> int" where
  "getMonth d = month d - 1"

definition month_shift :: "int \<Rightarrow> int" where
  "month_shift m =
     (if m = 1 then 0 else if m = 2 then 3 else if m = 3 then 2 else if m = 4 then 5
      else if m = 5 then 0 else if m = 6 then 3 else if m = 7 then 5 else if m = 8 then 1
      else if m = 9 then 4 else if m = 10 then 6 else if m = 11 then 2 else 4)"

definition getDay :: "calendar_date \<Rightarrow> nat" where
  "getDay d =
     (let y = (if month d < 3 then year d - 1 else year d)
      in nat ((y + y div 4 - y div 100 + y div 400 + month_shift (month d) + day d) mod 7))"

text \<open>
  \<^verbatim>\<open>new Date(y, m - i, 1)\<close>: the constructor carries a month index outside 0..11 into
  the year. Only the year and the month of the result are read.
\<close>

definition month_start :: "int \<Rightarrow> int \<Rightarrow> int \<times> int" where
  "month_start y m = (y + m div 12, m mod 12)"

text \<open>The day before a calendar day, for the runtime of a zone west of UTC.\<close>

definition leap_year :: "int \<Rightarrow> bool" where
  "leap_year y = (y mod 4 = 0 \<and> (y mod 100 \<noteq> 0 \<or> y mod 400 = 0))"

definition days_in_month :: "int \<Rightarrow> int \<Rightarrow> int" where
  "days_in_month y m =
     (if m = 2 then (if leap_year y then 29 else 28)
      else if m = 4 \<or> m = 6 \<or> m = 9 \<or> m = 11 then 30 else 31)"

definition day_before :: "calendar_date \<Rightarrow> calendar_date" where
  "day_before d =
     (if 1 < day d then d\<lparr>day := day d - 1\<rparr>
      else if 1 < month d
        then d\<lparr>month := month d - 1, day := days_in_month (year d) (month d - 1)\<rparr>
      else d\<lparr>year := year d - 1, month := 12, day := 31\<rparr>)"

section \<open>Arithmetic\<close>

text \<open>
  The operations of IEEE arithmetic on finite values, infinities and \<^verbatim>\<open>NaN\<close>. A zero
  divisor is \<^verbatim>\<open>+0\<close>.
\<close>

fun js_neg :: "jsnum \<Rightarrow> jsnum" where
  "js_neg (Fin x) = Fin (- x)"
| "js_neg PosInf = NegInf"
| "js_neg NegInf = PosInf"
| "js_neg NaN = NaN"

definition js_add :: "runtime \<Rightarrow> jsnum \<Rightarrow> jsnum \<Rightarrow> jsnum" where
  "js_add R x y =
     (case x of
        Fin a \<Rightarrow> (case y of Fin b \<Rightarrow> to_double R (a + b) | v \<Rightarrow> v)
      | PosInf \<Rightarrow> (case y of NegInf \<Rightarrow> NaN | NaN \<Rightarrow> NaN | v \<Rightarrow> PosInf)
      | NegInf \<Rightarrow> (case y of PosInf \<Rightarrow> NaN | NaN \<Rightarrow> NaN | v \<Rightarrow> NegInf)
      | NaN \<Rightarrow> NaN)"

definition js_sub :: "runtime \<Rightarrow> jsnum \<Rightarrow> jsnum \<Rightarrow> jsnum" where
  "js_sub R x y = js_add R x (js_neg y)"

text \<open>The sign of a number, with 0 for zero and for \<^verbatim>\<open>NaN\<close>.\<close>

fun js_sign :: "jsnum \<Rightarrow> int" where
  "js_sign (Fin x) = sgn \<lfloor>sgn x\<rfloor>"
| "js_sign PosInf = 1"
| "js_sign NegInf = - 1"
| "js_sign NaN = 0"

definition signed_infinity :: "int \<Rightarrow> jsnum" where
  "signed_infinity s = (if 0 < s then PosInf else NegInf)"

definition js_mul :: "runtime \<Rightarrow> jsnum \<Rightarrow> jsnum \<Rightarrow> jsnum" where
  "js_mul R x y =
     (case (x, y) of
        (Fin a, Fin b) \<Rightarrow> to_double R (a * b)
      | (NaN, v) \<Rightarrow> NaN
      | (u, NaN) \<Rightarrow> NaN
      | (u, v) \<Rightarrow>
          if js_sign u = 0 \<or> js_sign v = 0 then NaN
          else signed_infinity (js_sign u * js_sign v))"

definition js_div :: "runtime \<Rightarrow> jsnum \<Rightarrow> jsnum \<Rightarrow> jsnum" where
  "js_div R x y =
     (case (x, y) of
        (NaN, v) \<Rightarrow> NaN
      | (u, NaN) \<Rightarrow> NaN
      | (Fin a, Fin b) \<Rightarrow>
          if b \<noteq> 0 then to_double R (a / b)
          else if a = 0 then NaN
          else if 0 < a then PosInf else NegInf
      | (Fin a, v) \<Rightarrow> Fin 0
      | (u, Fin b) \<Rightarrow> if 0 \<le> b then u else js_neg u
      | (u, v) \<Rightarrow> NaN)"

text \<open>\<^verbatim>\<open>Math.round\<close>: the nearest integer, a tie going up; it is exact.\<close>

fun js_round :: "jsnum \<Rightarrow> jsnum" where
  "js_round (Fin x) = Fin (of_int \<lfloor>x + 1 / 2\<rfloor>)"
| "js_round v = v"

fun js_abs :: "jsnum \<Rightarrow> jsnum" where
  "js_abs (Fin x) = Fin \<bar>x\<bar>"
| "js_abs PosInf = PosInf"
| "js_abs NegInf = PosInf"
| "js_abs NaN = NaN"

text \<open>\<^verbatim>\<open>x < y\<close> and \<^verbatim>\<open>x <= y\<close>; both are false when an operand is \<^verbatim>\<open>NaN\<close>.\<close>

definition js_less :: "jsnum \<Rightarrow> jsnum \<Rightarrow> bool" where
  "js_less x y =
     (case (x, y) of
        (NaN, v) \<Rightarrow> False
      | (u, NaN) \<Rightarrow> False
      | (Fin a, Fin b) \<Rightarrow> a < b
      | (Fin a, v) \<Rightarrow> v = PosInf
      | (u, Fin b) \<Rightarrow> u = NegInf
      | (u, v) \<Rightarrow> u = NegInf \<and> v = PosInf)"


text \<open>A number is falsy when it is zero or \<^verbatim>\<open>NaN\<close>.\<close>

definition falsy_number :: "jsnum \<Rightarrow> bool" where
  "falsy_number v = (v = Fin 0 \<or> v = NaN)"

section \<open>Expenses and goals as the client sees them\<close>

text \<open>
  The amounts of an expense and of a goal are texts of numeric columns. A record of the
  model holds the numeric that the text denotes: an exact decimal, or one of the special
  values of a numeric column. \<^verbatim>\<open>Number(text)\<close> is that numeric rounded to a double.
\<close>

record Expense =
  expense_id :: int
  expense_userId :: int
  amount :: jsnum
  category :: string
  description :: "string option"
  expense_note :: "string option"
  date :: calendar_date

record Goal =
  goal_id :: int
  goal_userId :: int
  name :: string
  targetAmount :: jsnum
  currentAmount :: jsnum
  targetDate :: "calendar_date option"
  status :: string

definition Number_of :: "runtime \<Rightarrow> jsnum \<Rightarrow> jsnum" where
  "Number_of R v = (case v of Fin r \<Rightarrow> to_double R r | u \<Rightarrow> u)"

section \<open>Objects used as dictionaries\<close>

text \<open>
  \<^verbatim>\<open>categoryTotals\<close> is a plain object keyed by category. Its own properties are the
  list of (key, value) pairs in creation order: assigning to an existing key keeps its
  place, a new key goes to the end. A value is a number or, once a text was added to
  it, a text.

  A plain object inherits the members of \<^verbatim>\<open>Object.prototype\<close>. Reading a key that is not
  an own property finds the inherited member of that name, if there is one, and
  \<^verbatim>\<open>undefined\<close> otherwise. Assigning to a key creates or changes an own property, except
  for \<^verbatim>\<open>__proto__\<close>: that assignment calls the inherited setter, which ignores a number
  or a text, so no own property is ever created for it.
\<close>

text \<open>
  A text arises only where a member inherited from \<^verbatim>\<open>Object.prototype\<close> meets \<^verbatim>\<open>+\<close>: the
  member converts to its text (\<^verbatim>\<open>function toString() { [native code] }\<close>, or
  \<^verbatim>\<open>[object Object]\<close> for \<^verbatim>\<open>__proto__\<close>) and the number is written after it. Further
  additions write numbers or texts before or after. A text is kept as the way it was
  made; it always contains the text of a member, so it is never empty and never the
  text of a number.
\<close>

datatype joined_text =
    Member_text string
  | Text_number joined_text jsnum
  | Number_text jsnum joined_text
  | Text_text joined_text joined_text

datatype prop_value = NumV jsnum | StrV joined_text

type_synonym totals = "(string \<times> prop_value) list"

definition Object_prototype :: "string list" where
  "Object_prototype =
     [''constructor'', ''__defineGetter__'', ''__defineSetter__'', ''hasOwnProperty'',
      ''__lookupGetter__'', ''__lookupSetter__'', ''isPrototypeOf'',
      ''propertyIsEnumerable'', ''toString'', ''valueOf'', ''__proto__'',
      ''toLocaleString'']"

datatype looked_up = Own prop_value | Inherited | Missing

definition Get :: "totals \<Rightarrow> string \<Rightarrow> looked_up" where
  "Get obj k =
     (case map_of obj k of
        Some v \<Rightarrow> Own v
      | None \<Rightarrow> if k \<in> set Object_prototype then Inherited else Missing)"

definition Put :: "totals \<Rightarrow> string \<Rightarrow> prop_value \<Rightarrow> totals" where
  "Put obj k v = (if k = ''__proto__'' then obj else AList.update k v obj)"

text \<open>
  Truthiness of what a read returns: an inherited member is a function or an object and
  so truthy, as is a text; \<^verbatim>\<open>undefined\<close> is falsy.
\<close>

definition truthy :: "looked_up \<Rightarrow> bool" where
  "truthy x =
     (case x of
        Own (NumV v) \<Rightarrow> \<not> falsy_number v
      | Own (StrV s) \<Rightarrow> True
      | Inherited \<Rightarrow> True
      | Missing \<Rightarrow> False)"

text \<open>
  \<^verbatim>\<open>x + n\<close> for what was read under key \<open>k\<close> and a number \<open>n\<close>: numbers are added; a text,
  or an inherited member (which converts to its text), is joined with the text of the
  number; \<^verbatim>\<open>undefined + n\<close> is \<^verbatim>\<open>NaN\<close>.
\<close>

definition plus_number :: "runtime \<Rightarrow> string \<Rightarrow> looked_up \<Rightarrow> jsnum \<Rightarrow> prop_value" where
  "plus_number R k x n =
     (case x of
        Own (NumV v) \<Rightarrow> NumV (js_add R v n)
      | Own (StrV s) \<Rightarrow> StrV (Text_number s n)
      | Inherited \<Rightarrow> StrV (Text_number (Member_text k) n)
      | Missing \<Rightarrow> NumV NaN)"

text \<open>
  \<^verbatim>\<open>a + b\<close> for two values, and the number a value converts to: a text is not the text of
  a number and converts to \<^verbatim>\<open>NaN\<close>.
\<close>

definition plus_value :: "runtime \<Rightarrow> prop_value \<Rightarrow> prop_value \<Rightarrow> prop_value" where
  "plus_value R a b =
     (case (a, b) of
        (NumV x, NumV y) \<Rightarrow> NumV (js_add R x y)
      | (NumV x, StrV t) \<Rightarrow> StrV (Number_text x t)
      | (StrV s, NumV y) \<Rightarrow> StrV (Text_number s y)
      | (StrV s, StrV t) \<Rightarrow> StrV (Text_text s t))"

definition to_number :: "prop_value \<Rightarrow> jsnum" where
  "to_number a = (case a of NumV x \<Rightarrow> x | StrV s \<Rightarrow> NaN)"

text \<open>
  \<^verbatim>\<open>Object.entries\<close> lists the own keys that are array indices first, in ascending
  numeric order, then the other keys in creation order.
\<close>

definition is_digit :: "char \<Rightarrow> bool" where
  "is_digit c = ((48::nat) \<le> of_char c \<and> (of_char c :: nat) \<le> 57)"

definition decimal_value :: "string \<Rightarrow> nat" where
  "decimal_value s = foldl (\<lambda>n c. 10 * n + (of_char c - 48)) 0 s"

definition is_array_index :: "string \<Rightarrow> bool" where
  "is_array_index s =
     (s \<noteq> [] \<and> list_all is_digit s \<and> (s = ''0'' \<or> hd s \<noteq> CHR ''0'')
      \<and> decimal_value s \<le> 4294967294)"

definition Object_entries :: "totals \<Rightarrow> totals" where
  "Object_entries obj =
     sort_key (\<lambda>p. decimal_value (fst p)) (filter (\<lambda>p. is_array_index (fst p)) obj)
     @ filter (\<lambda>p. \<not> is_array_index (fst p)) obj"

text \<open>
  \<^verbatim>\<open>.sort((a, b) => b[1] - a[1])\<close>. The sort reads only the sign of the comparator: a
  negative result puts \<open>a\<close> first, a positive one puts \<open>b\<close> first, zero and \<^verbatim>\<open>NaN\<close> keep
  the order of the input (the sort is stable). The difference of two doubles has the
  sign of the exact difference: it is zero only when they are equal, and an overflow
  keeps the sign. So the sign is read from the exact difference; it is that of \<^verbatim>\<open>NaN\<close>
  for two equal infinities or a \<^verbatim>\<open>NaN\<close> operand.
\<close>

definition comparator_sign :: "runtime \<Rightarrow> string \<times> prop_value \<Rightarrow> string \<times> prop_value \<Rightarrow> int" where
  "comparator_sign R a b =
     js_sign (js_sub (R\<lparr>to_double := exact\<rparr>) (to_number (snd b)) (to_number (snd a)))"

fun insert_by :: "('a \<Rightarrow> 'a \<Rightarrow> int) \<Rightarrow> 'a \<Rightarrow> 'a list \<Rightarrow> 'a list" where
  "insert_by cmp x [] = [x]"
| "insert_by cmp x (y # ys) =
     (if 0 < cmp x y then y # insert_by cmp x ys else x # y # ys)"

definition sort_by :: "('a \<Rightarrow> 'a \<Rightarrow> int) \<Rightarrow> 'a list \<Rightarrow> 'a list" where
  "sort_by cmp xs = foldr (insert_by cmp) xs []"

section \<open>Category breakdown\<close>

text \<open>
  The body of the \<^verbatim>\<open>forEach\<close>: when what the key reads is falsy the total is set to 0;
  then the amount is added to what the key reads and the sum is assigned.
\<close>

definition add_to_category :: "runtime \<Rightarrow> totals \<Rightarrow> Expense \<Rightarrow> totals" where
  "add_to_category R obj expense =
     (let c = category expense;
          obj1 = (if \<not> truthy (Get obj c) then Put obj c (NumV (Fin 0)) else obj)
      in Put obj1 c (plus_number R c (Get obj1 c) (Number_of R (amount expense))))"

definition categoryTotals :: "runtime \<Rightarrow> Expense list \<Rightarrow> totals" where
  "categoryTotals R es = foldl (add_to_category R) [] es"

definition sortedCategories :: "runtime \<Rightarrow> Expense list \<Rightarrow> string list" where
  "sortedCategories R es =
     map fst (sort_by (comparator_sign R) (Object_entries (categoryTotals R es)))"

text \<open>
  \<^verbatim>\<open>sortedCategories.map(category => categoryTotals[category])\<close> reads each sorted key
  back. Every sorted key is an own property, so the last case is never taken.
\<close>

definition own_value :: "totals \<Rightarrow> string \<Rightarrow> prop_value" where
  "own_value obj c = (case map_of obj c of Some v \<Rightarrow> v | None \<Rightarrow> NumV NaN)"

text \<open>\<^verbatim>\<open>getCategoryColor\<close> of category-utils.\<close>

definition getCategoryColor :: "string \<Rightarrow> string" where
  "getCategoryColor c =
     (if c = ''Food'' then ''#3B82F6''
      else if c = ''Transport'' then ''#8B5CF6''
      else if c = ''Entertainment'' then ''#EF4444''
      else if c = ''Shopping'' then ''#10B981''
      else if c = ''Health'' then ''#EC4899''
      else if c = ''Bills'' then ''#F59E0B''
      else ''#6B7280'')"

record category_data =
  labels :: "string list"
  data :: "prop_value list"
  percentages :: "jsnum list"
  colors :: "string list"
  total :: prop_value

text \<open>\<^verbatim>\<open>getCategoryData\<close> of the insights charts, over \<^verbatim>\<open>filteredExpenses\<close>.\<close>

definition getCategoryData :: "runtime \<Rightarrow> Expense list \<Rightarrow> category_data" where
  "getCategoryData R filteredExpenses =
     (let obj = categoryTotals R filteredExpenses;
          sorted = sortedCategories R filteredExpenses;
          dat = map (own_value obj) sorted;
          tot = foldl (\<lambda>sum v. plus_value R sum v) (NumV (Fin 0)) dat
      in \<lparr> labels = sorted,
           data = dat,
           percentages =
             map (\<lambda>v. js_round
                        (js_mul R (js_div R (to_number v) (to_number tot)) (Fin 100))) dat,
           colors = map getCategoryColor sorted,
           total = tot \<rparr>)"

text \<open>
  The insights view shows \<^verbatim>\<open>categoryData.labels[0]\<close> as the top spending category, under
  the guard \<^verbatim>\<open>categoryData.labels.length > 0\<close>.
\<close>

definition topSpendingCategory :: "category_data \<Rightarrow> string option" where
  "topSpendingCategory cd = (case labels cd of [] \<Rightarrow> None | c # _ \<Rightarrow> Some c)"

text \<open>\<^verbatim>\<open>getCategoryData\<close> of the dashboard's spending chart, over all expenses.\<close>

record chart_category_data =
  chart_labels :: "string list"
  chart_data :: "prop_value list"
  chart_colors :: "string list"

definition spending_getCategoryData :: "runtime \<Rightarrow> Expense list \<Rightarrow> chart_category_data" where
  "spending_getCategoryData R expenses =
     (let obj = categoryTotals R expenses;
          sorted = sortedCategories R expenses
      in \<lparr> chart_labels = sorted,
           chart_data = map (own_value obj) sorted,
           chart_colors = map getCategoryColor sorted \<rparr>)"

section \<open>Monthly trend and month-over-month change\<close>

datatype TimeFilter = OneMonth | ThreeMonths | SixMonths | OneYear | AllTime

text \<open>\<^verbatim>\<open>let monthsToShow = 12; switch (timeFilter) { ... }\<close>\<close>

fun monthsToShow :: "TimeFilter \<Rightarrow> nat" where
  "monthsToShow OneMonth = 1"
| "monthsToShow ThreeMonths = 3"
| "monthsToShow SixMonths = 6"
| "monthsToShow OneYear = 12"
| "monthsToShow AllTime = 24"

text \<open>
  The loop \<^verbatim>\<open>for (let i = n - 1; i >= 0; i--)\<close> visits the months oldest first; each
  month is the pair (year, month index) of \<^verbatim>\<open>new Date(today.getFullYear(),
  today.getMonth() - i, 1)\<close>. \<open>today\<close> is the local day of \<^verbatim>\<open>new Date()\<close>.
\<close>

definition trailing_months :: "calendar_date \<Rightarrow> nat \<Rightarrow> (int \<times> int) list" where
  "trailing_months today n =
     map (\<lambda>i. month_start (getFullYear today) (getMonth today - int i)) (rev [0..<n])"

text \<open>
  The filter and the \<^verbatim>\<open>reduce\<close> of one month: the expenses whose date, read in local
  time, has the month and the year of \<open>d\<close>, summed from 0.
\<close>

definition monthlyExpenses :: "runtime \<Rightarrow> Expense list \<Rightarrow> int \<times> int \<Rightarrow> Expense list" where
  "monthlyExpenses R es d =
     filter (\<lambda>expense. getMonth (local_day R (date expense)) = snd d
                      \<and> getFullYear (local_day R (date expense)) = fst d) es"

definition sum_amounts :: "runtime \<Rightarrow> Expense list \<Rightarrow> jsnum" where
  "sum_amounts R es =
     foldl (\<lambda>sum expense. js_add R sum (Number_of R (amount expense))) (Fin 0) es"

text \<open>
  A month label is the locale's short month name followed by the year; the model keeps
  the pair (month index, year) the text is made from.
\<close>

record monthly_data =
  month_labels :: "(int \<times> int) list"
  month_totals :: "jsnum list"
  change :: jsnum
  changePercentage :: jsnum

definition month_over_month :: "runtime \<Rightarrow> jsnum list \<Rightarrow> jsnum \<times> jsnum" where
  "month_over_month R monthlyTotals =
     (if 2 \<le> length monthlyTotals then
        (let currentMonth = monthlyTotals ! (length monthlyTotals - 1);
             previousMonth = monthlyTotals ! (length monthlyTotals - 2)
         in if js_less (Fin 0) previousMonth
            then (let change = js_sub R currentMonth previousMonth
                  in (change, js_round (js_mul R (js_div R change previousMonth) (Fin 100))))
            else (Fin 0, Fin 0))
      else (Fin 0, Fin 0))"

text \<open>\<^verbatim>\<open>getMonthlyData\<close> of the insights charts, over \<^verbatim>\<open>filteredExpenses\<close>.\<close>

definition getMonthlyData :: "runtime \<Rightarrow> TimeFilter \<Rightarrow> calendar_date \<Rightarrow> Expense list \<Rightarrow> monthly_data" where
  "getMonthlyData R timeFilter today filteredExpenses =
     (let months = trailing_months today (monthsToShow timeFilter);
          monthlyTotals = map (\<lambda>d. sum_amounts R (monthlyExpenses R filteredExpenses d)) months;
          mom = month_over_month R monthlyTotals
      in \<lparr> month_labels = map (\<lambda>d. (snd d, fst d)) months,
           month_totals = monthlyTotals,
           change = fst mom,
           changePercentage = snd mom \<rparr>)"

text \<open>\<^verbatim>\<open>getMonthlyData\<close> of the dashboard's spending chart: the last six months.\<close>

definition spending_getMonthlyData :: "runtime \<Rightarrow> calendar_date \<Rightarrow> Expense list \<Rightarrow> (int \<times> int) list \<times> jsnum list" where
  "spending_getMonthlyData R today expenses =
     (let months = trailing_months today 6
      in (map (\<lambda>d. (snd d, fst d)) months,
          map (\<lambda>d. sum_amounts R (monthlyExpenses R expenses d)) months))"

section \<open>Weekday averages\<close>

definition weekdays :: "string list" where
  "weekdays = [''Sunday'', ''Monday'', ''Tuesday'', ''Wednesday'', ''Thursday'', ''Friday'',
               ''Saturday'']"

text \<open>
  The body of the \<^verbatim>\<open>forEach\<close> over the expenses. \<^verbatim>\<open>getDay\<close> is below 7, so both array
  writes are in range.
\<close>

definition add_to_weekday :: "runtime \<Rightarrow> jsnum list \<times> nat list \<Rightarrow> Expense \<Rightarrow> jsnum list \<times> nat list" where
  "add_to_weekday R acc expense =
     (let weekdayTotals = fst acc; weekdayCounts = snd acc;
          day = getDay (local_day R (date expense))
      in (weekdayTotals[day := js_add R (weekdayTotals ! day) (Number_of R (amount expense))],
          weekdayCounts[day := weekdayCounts ! day + 1]))"

definition weekday_buckets :: "runtime \<Rightarrow> Expense list \<Rightarrow> jsnum list \<times> nat list" where
  "weekday_buckets R es = foldl (add_to_weekday R) (replicate 7 (Fin 0), replicate 7 0) es"

text \<open>A count is a whole number below \<open>2^53\<close> and so exact as a double.\<close>

definition weekdayAverages :: "runtime \<Rightarrow> jsnum list \<times> nat list \<Rightarrow> jsnum list" where
  "weekdayAverages R acc =
     map (\<lambda>i. if 0 < snd acc ! i then js_div R (fst acc ! i) (Fin (of_nat (snd acc ! i)))
               else Fin 0)
       [0..<length (fst acc)]"

text \<open>The scan for the highest average: it starts from day 0 and average 0.\<close>

definition highest_step :: "nat \<times> jsnum \<Rightarrow> nat \<times> jsnum \<Rightarrow> nat \<times> jsnum" where
  "highest_step st x =
     (let highestDay = fst st; highestAvg = snd st; i = fst x; avg = snd x
      in if js_less highestAvg avg then (i, avg) else (highestDay, highestAvg))"

definition highest_scan :: "jsnum list \<Rightarrow> nat \<times> jsnum" where
  "highest_scan avgs = foldl highest_step (0, Fin 0) (zip [0..<length avgs] avgs)"

record weekday_data =
  weekday_labels :: "string list"
  weekday_averages :: "jsnum list"
  highestDay :: string
  highestAvg :: jsnum

definition getWeekdayData :: "runtime \<Rightarrow> Expense list \<Rightarrow> weekday_data" where
  "getWeekdayData R filteredExpenses =
     (let avgs = weekdayAverages R (weekday_buckets R filteredExpenses);
          hi = highest_scan avgs
      in \<lparr> weekday_labels = weekdays,
           weekday_averages = avgs,
           highestDay = weekdays ! fst hi,
           highestAvg = snd hi \<rparr>)"

section \<open>Summary cards of the dashboard\<close>

text \<open>
  \<^verbatim>\<open>acc[category] = (acc[category] || 0) + Number(expense.amount)\<close>: what the key reads,
  or 0 when that is falsy.
\<close>

definition or_zero :: "looked_up \<Rightarrow> looked_up" where
  "or_zero x = (if truthy x then x else Own (NumV (Fin 0)))"

definition add_spending :: "runtime \<Rightarrow> totals \<Rightarrow> Expense \<Rightarrow> totals" where
  "add_spending R acc expense =
     (let c = category expense
      in Put acc c (plus_number R c (or_zero (Get acc c)) (Number_of R (amount expense))))"

definition categorySpending :: "runtime \<Rightarrow> Expense list \<Rightarrow> totals" where
  "categorySpending R es = foldl (add_spending R) [] es"

text \<open>
  The scan for the top category compares \<^verbatim>\<open>amount > topCategoryAmount\<close>; a text operand
  is compared as the number it converts to.
\<close>

definition top_step :: "runtime \<Rightarrow> string \<times> prop_value \<Rightarrow> string \<times> prop_value \<Rightarrow> string \<times> prop_value" where
  "top_step R st entry =
     (let topCategory = fst st; topCategoryAmount = snd st; c = fst entry; a = snd entry
      in if js_less (to_number topCategoryAmount) (to_number a) then (c, a)
         else (topCategory, topCategoryAmount))"

text \<open>
  \<^verbatim>\<open>goals?.reduce(...) || 0\<close>: the goals are undefined until the query has answered, and a
  falsy sum is replaced by 0.
\<close>

definition goals_sum :: "runtime \<Rightarrow> (Goal \<Rightarrow> jsnum) \<Rightarrow> Goal list option \<Rightarrow> jsnum" where
  "goals_sum R field goals =
     (case goals of None \<Rightarrow> Fin 0
      | Some gs \<Rightarrow>
          (let s = foldl (\<lambda>sum goal. js_add R sum (Number_of R (field goal))) (Fin 0) gs
           in if falsy_number s then Fin 0 else s))"

record summary =
  currentMonthTotal :: jsnum
  lastMonthTotal :: jsnum
  monthlySavings :: jsnum
  spendingDifference :: jsnum
  shownDifference :: jsnum
  topCategory :: string
  topCategoryAmount :: prop_value
  topCategoryPercentage :: jsnum
  goalsProgress :: jsnum

definition SummaryCards :: "runtime \<Rightarrow> calendar_date \<Rightarrow> Expense list \<Rightarrow> Goal list option \<Rightarrow> summary" where
  "SummaryCards R currentDate expenses goals =
     (let currentMonth = getMonth currentDate;
          currentYear = getFullYear currentDate;
          lastMonthDate = month_start currentYear (currentMonth - 1);
          currentMonthExpenses = monthlyExpenses R expenses (currentYear, currentMonth);
          lastMonthExpenses = monthlyExpenses R expenses lastMonthDate;
          curTotal = sum_amounts R currentMonthExpenses;
          lastTotal = sum_amounts R lastMonthExpenses;
          diff = (if \<not> falsy_number lastTotal
                  then js_mul R (js_div R (js_sub R curTotal lastTotal) lastTotal) (Fin 100)
                  else Fin 0);
          top = foldl (top_step R) ([], NumV (Fin 0))
                  (Object_entries (categorySpending R currentMonthExpenses));
          totalGoalTargets = goals_sum R targetAmount goals;
          totalGoalSavings = goals_sum R currentAmount goals
      in \<lparr> currentMonthTotal = curTotal,
           lastMonthTotal = lastTotal,
           monthlySavings = goals_sum R currentAmount goals,
           spendingDifference = diff,
           shownDifference = js_abs (js_round diff),
           topCategory = fst top,
           topCategoryAmount = snd top,
           topCategoryPercentage =
             (if \<not> falsy_number curTotal
              then js_round (js_mul R (js_div R (to_number (snd top)) curTotal) (Fin 100))
              else Fin 0),
           goalsProgress =
             (if js_less (Fin 0) totalGoalTargets
              then js_round (js_mul R (js_div R totalGoalSavings totalGoalTargets) (Fin 100))
              else Fin 0) \<rparr>)"

section \<open>Adding funds to a goal\<close>



section \<open>The data layer\<close>

text \<open>
  The relational store is reached through the storage class. A numeric column holds
  decimal text: \<open>String_of n\<close> is the text \<^verbatim>\<open>String(n)\<close> of a number, \<open>Text s\<close> a text
  written as it came. Rows carry the columns other than the creation time. The store
  itself is outside the repository: a query either answers from the tables or throws,
  which the flag \<open>available\<close> decides. Every call of a storage method is recorded in
  \<open>calls\<close>.
\<close>

datatype numeric_text = String_of jsnum | Text string

record expense_row =
  er_id :: int
  er_userId :: int
  er_amount :: numeric_text
  er_category :: string
  er_description :: "string option"
  er_note :: "string option"
  er_date :: string

record goal_row =
  gr_id :: int
  gr_userId :: int
  gr_name :: string
  gr_targetAmount :: numeric_text
  gr_currentAmount :: numeric_text
  gr_targetDate :: "string option"
  gr_status :: string

text \<open>\<^verbatim>\<open>Partial<Expense>\<close> and \<^verbatim>\<open>Partial<Goal>\<close>: the columns an update sets.\<close>

record expense_patch =
  ep_userId :: "int option"
  ep_amount :: "numeric_text option"
  ep_category :: "string option"
  ep_description :: "string option option"
  ep_note :: "string option option"
  ep_date :: "string option"

record goal_patch =
  gp_userId :: "int option"
  gp_name :: "string option"
  gp_targetAmount :: "numeric_text option"
  gp_currentAmount :: "numeric_text option"
  gp_targetDate :: "string option option"
  gp_status :: "string option"

text \<open>\<^verbatim>\<open>InsertExpense\<close>: what the insert schema returns.\<close>

datatype amount_input = AmountNumber jsnum | AmountString string

record insert_expense =
  ie_userId :: int
  ie_category :: string
  ie_description :: "string option"
  ie_note :: "string option"
  ie_date :: string
  ie_amount :: amount_input

datatype storage_call =
    GetExpenseById int
  | CreateExpense insert_expense
  | UpdateExpense int expense_patch
  | DeleteExpense int
  | GetGoalById int
  | UpdateGoal int goal_patch
  | DeleteGoal int

datatype storage_error = QueryFailed

record storage =
  expenses_table :: "expense_row list"
  goals_table :: "goal_row list"
  next_expense_id :: int
  available :: bool
  calls :: "storage_call list"

definition called :: "storage_call \<Rightarrow> storage \<Rightarrow> storage" where
  "called c s = s\<lparr>calls := calls s @ [c]\<rparr>"

definition set_expense :: "expense_patch \<Rightarrow> expense_row \<Rightarrow> expense_row" where
  "set_expense p r =
     r\<lparr> er_userId := (case ep_userId p of None \<Rightarrow> er_userId r | Some v \<Rightarrow> v),
        er_amount := (case ep_amount p of None \<Rightarrow> er_amount r | Some v \<Rightarrow> v),
        er_category := (case ep_category p of None \<Rightarrow> er_category r | Some v \<Rightarrow> v),
        er_description := (case ep_description p of None \<Rightarrow> er_description r | Some v \<Rightarrow> v),
        er_note := (case ep_note p of None \<Rightarrow> er_note r | Some v \<Rightarrow> v),
        er_date := (case ep_date p of None \<Rightarrow> er_date r | Some v \<Rightarrow> v) \<rparr>"

definition set_goal :: "goal_patch \<Rightarrow> goal_row \<Rightarrow> goal_row" where
  "set_goal p r =
     r\<lparr> gr_userId := (case gp_userId p of None \<Rightarrow> gr_userId r | Some v \<Rightarrow> v),
        gr_name := (case gp_name p of None \<Rightarrow> gr_name r | Some v \<Rightarrow> v),
        gr_targetAmount := (case gp_targetAmount p of None \<Rightarrow> gr_targetAmount r | Some v \<Rightarrow> v),
        gr_currentAmount := (case gp_currentAmount p of None \<Rightarrow> gr_currentAmount r | Some v \<Rightarrow> v),
        gr_targetDate := (case gp_targetDate p of None \<Rightarrow> gr_targetDate r | Some v \<Rightarrow> v),
        gr_status := (case gp_status p of None \<Rightarrow> gr_status r | Some v \<Rightarrow> v) \<rparr>"

text \<open>\<^verbatim>\<open>select ... where id = ?\<close>, then \<^verbatim>\<open>result[0]\<close>.\<close>

definition getExpenseById :: "int \<Rightarrow> storage \<Rightarrow> (storage_error + expense_row option) \<times> storage" where
  "getExpenseById i s =
     (if available s then Inr (find (\<lambda>r. er_id r = i) (expenses_table s)) else Inl QueryFailed,
      called (GetExpenseById i) s)"

definition getGoalById :: "int \<Rightarrow> storage \<Rightarrow> (storage_error + goal_row option) \<times> storage" where
  "getGoalById i s =
     (if available s then Inr (find (\<lambda>r. gr_id r = i) (goals_table s)) else Inl QueryFailed,
      called (GetGoalById i) s)"

text \<open>\<^verbatim>\<open>String(insertExpense.amount)\<close>, then the insert; the key is the next serial.\<close>

definition createExpense :: "insert_expense \<Rightarrow> storage \<Rightarrow> (storage_error + expense_row) \<times> storage" where
  "createExpense ins s =
     (if available s then
        (let row = \<lparr> er_id = next_expense_id s,
                     er_userId = ie_userId ins,
                     er_amount = (case ie_amount ins of AmountNumber n \<Rightarrow> String_of n
                                  | AmountString t \<Rightarrow> Text t),
                     er_category = ie_category ins,
                     er_description = ie_description ins,
                     er_note = ie_note ins,
                     er_date = ie_date ins \<rparr>
         in (Inr row,
             called (CreateExpense ins)
               (s\<lparr> expenses_table := expenses_table s @ [row],
                   next_expense_id := next_expense_id s + 1 \<rparr>)))
      else (Inl QueryFailed, called (CreateExpense ins) s))"

text \<open>\<^verbatim>\<open>update ... set ... where id = ? returning\<close>, then the first returned row.\<close>

definition updateExpense :: "int \<Rightarrow> expense_patch \<Rightarrow> storage \<Rightarrow> (storage_error + expense_row option) \<times> storage" where
  "updateExpense i p s =
     (if available s then
        (Inr (map_option (set_expense p) (find (\<lambda>r. er_id r = i) (expenses_table s))),
         called (UpdateExpense i p)
           (s\<lparr> expenses_table :=
                 map (\<lambda>r. if er_id r = i then set_expense p r else r) (expenses_table s) \<rparr>))
      else (Inl QueryFailed, called (UpdateExpense i p) s))"

definition updateGoal :: "int \<Rightarrow> goal_patch \<Rightarrow> storage \<Rightarrow> (storage_error + goal_row option) \<times> storage" where
  "updateGoal i p s =
     (if available s then
        (Inr (map_option (set_goal p) (find (\<lambda>r. gr_id r = i) (goals_table s))),
         called (UpdateGoal i p)
           (s\<lparr> goals_table :=
                 map (\<lambda>r. if gr_id r = i then set_goal p r else r) (goals_table s) \<rparr>))
      else (Inl QueryFailed, called (UpdateGoal i p) s))"

text \<open>\<^verbatim>\<open>delete ... where id = ? returning\<close>; true when a row was deleted.\<close>

definition deleteExpense :: "int \<Rightarrow> storage \<Rightarrow> (storage_error + bool) \<times> storage" where
  "deleteExpense i s =
     (if available s then
        (Inr (0 < length (filter (\<lambda>r. er_id r = i) (expenses_table s))),
         called (DeleteExpense i)
           (s\<lparr> expenses_table := filter (\<lambda>r. er_id r \<noteq> i) (expenses_table s) \<rparr>))
      else (Inl QueryFailed, called (DeleteExpense i) s))"

definition deleteGoal :: "int \<Rightarrow> storage \<Rightarrow> (storage_error + bool) \<times> storage" where
  "deleteGoal i s =
     (if available s then
        (Inr (0 < length (filter (\<lambda>r. gr_id r = i) (goals_table s))),
         called (DeleteGoal i)
           (s\<lparr> goals_table := filter (\<lambda>r. gr_id r \<noteq> i) (goals_table s) \<rparr>))
      else (Inl QueryFailed, called (DeleteGoal i) s))"

section \<open>Validation of a new expense\<close>

text \<open>
  A value of a JSON request body; \<open>Undefined\<close> is a missing key, \<open>Object\<close> any array or
  object. \<^verbatim>\<open>parseFloat\<close> is the language's own function and is a parameter of the model.
\<close>

datatype jsval = Undefined | Null | Boolean bool | Number jsnum | String string | Object

fun js_ge :: "jsnum \<Rightarrow> rat \<Rightarrow> bool" where
  "js_ge (Fin x) r = (r \<le> x)"
| "js_ge PosInf r = True"
| "js_ge NegInf r = False"
| "js_ge NaN r = False"

fun js_gt :: "jsnum \<Rightarrow> rat \<Rightarrow> bool" where
  "js_gt (Fin x) r = (r < x)"
| "js_gt PosInf r = True"
| "js_gt NegInf r = False"
| "js_gt NaN r = False"

definition isNaN :: "jsnum \<Rightarrow> bool" where
  "isNaN n = (n = NaN)"

text \<open>The fixed category list of the shared schema.\<close>

definition EXPENSE_CATEGORIES :: "string list" where
  "EXPENSE_CATEGORIES =
     [''Food'', ''Transport'', ''Entertainment'', ''Shopping'', ''Health'', ''Bills'', ''Other'']"

record expense_body =
  body_amount :: jsval
  body_category :: jsval
  body_description :: jsval
  body_note :: jsval
  body_date :: jsval

datatype zod_issue =
  CategoryIssue | DescriptionIssue | NoteIssue | DateIssue | AmountIssue

text \<open>
  The amount of the schema: a number that is at least 0.01 (a number schema refuses
  \<^verbatim>\<open>NaN\<close>), or a text whose \<^verbatim>\<open>parseFloat\<close> is a number above 0.
\<close>

definition amount_schema :: "(string \<Rightarrow> jsnum) \<Rightarrow> jsval \<Rightarrow> amount_input option" where
  "amount_schema parseFloat v =
     (case v of
        Number n \<Rightarrow> if \<not> isNaN n \<and> js_ge n (1 / 100) then Some (AmountNumber n) else None
      | String t \<Rightarrow>
          if \<not> isNaN (parseFloat t) \<and> js_gt (parseFloat t) 0 then Some (AmountString t)
          else None
      | _ \<Rightarrow> None)"

text \<open>A required text column, and a text column that may be null or left out.\<close>

definition required_text :: "jsval \<Rightarrow> string option" where
  "required_text v = (case v of String t \<Rightarrow> Some t | _ \<Rightarrow> None)"

definition optional_text :: "jsval \<Rightarrow> string option option" where
  "optional_text v =
     (case v of String t \<Rightarrow> Some (Some t) | Null \<Rightarrow> Some None | Undefined \<Rightarrow> Some None
      | _ \<Rightarrow> None)"

text \<open>
  \<^verbatim>\<open>insertExpenseSchema.parse\<close>: category and date are the table's text columns,
  description and note its nullable text columns, the amount is the extension above.
  The user id is the session's number. The result is the list of issues or the
  validated data.
\<close>

definition insertExpenseSchema_parse :: "(string \<Rightarrow> jsnum) \<Rightarrow> int \<Rightarrow> expense_body \<Rightarrow> zod_issue list + insert_expense" where
  "insertExpenseSchema_parse parseFloat uid b =
     (case (required_text (body_category b), optional_text (body_description b),
            optional_text (body_note b), required_text (body_date b),
            amount_schema parseFloat (body_amount b)) of
        (Some c, Some d, Some n, Some dt, Some a) \<Rightarrow>
          Inr \<lparr> ie_userId = uid, ie_category = c, ie_description = d, ie_note = n,
                ie_date = dt, ie_amount = a \<rparr>
      | (c, d, n, dt, a) \<Rightarrow>
          Inl ((if c = None then [CategoryIssue] else [])
             @ (if d = None then [DescriptionIssue] else [])
             @ (if n = None then [NoteIssue] else [])
             @ (if dt = None then [DateIssue] else [])
             @ (if a = None then [AmountIssue] else [])))"

section \<open>The routes\<close>

record 'b request =
  isAuthenticated :: bool
  user :: "int option"
  params_id :: int
  body :: 'b

datatype payload =
    Message string
  | InvalidData "zod_issue list"
  | ExpenseJson "expense_row option"
  | GoalJson "goal_row option"
  | NoContent

record response =
  status_code :: nat
  payload :: payload

text \<open>
  \<^verbatim>\<open>const userId = req.user?.id; if (!userId) ...\<close>: a missing user and the id 0 are both
  falsy.
\<close>

definition session_user :: "'b request \<Rightarrow> int option" where
  "session_user req = (case user req of None \<Rightarrow> None | Some u \<Rightarrow> if u = 0 then None else Some u)"

text \<open>
  The pre-processing of \<^verbatim>\<open>POST /api/expenses\<close>: a text amount is replaced by its
  \<^verbatim>\<open>parseFloat\<close>.
\<close>

definition requestData :: "(string \<Rightarrow> jsnum) \<Rightarrow> expense_body \<Rightarrow> expense_body" where
  "requestData parseFloat b =
     b\<lparr> body_amount := (case body_amount b of String t \<Rightarrow> Number (parseFloat t) | v \<Rightarrow> v) \<rparr>"

definition post_expense :: "(string \<Rightarrow> jsnum) \<Rightarrow> expense_body request \<Rightarrow> storage \<Rightarrow> response \<times> storage" where
  "post_expense parseFloat req s =
     (if \<not> isAuthenticated req then (\<lparr>status_code = 401, payload = Message ''Unauthorized''\<rparr>, s)
      else case session_user req of
        None \<Rightarrow> (\<lparr>status_code = 401, payload = Message ''User not found''\<rparr>, s)
      | Some userId \<Rightarrow>
         (case insertExpenseSchema_parse parseFloat userId (requestData parseFloat (body req)) of
            Inl issues \<Rightarrow> (\<lparr>status_code = 400, payload = InvalidData issues\<rparr>, s)
          | Inr validatedData \<Rightarrow>
             (case createExpense validatedData s of
                (Inl err, s1) \<Rightarrow>
                  (\<lparr>status_code = 500, payload = Message ''Failed to create expense''\<rparr>, s1)
              | (Inr expense, s1) \<Rightarrow>
                  (\<lparr>status_code = 201, payload = ExpenseJson (Some expense)\<rparr>, s1))))"

definition put_expense :: "expense_patch request \<Rightarrow> storage \<Rightarrow> response \<times> storage" where
  "put_expense req s =
     (if \<not> isAuthenticated req then (\<lparr>status_code = 401, payload = Message ''Unauthorized''\<rparr>, s)
      else case session_user req of
        None \<Rightarrow> (\<lparr>status_code = 401, payload = Message ''User not found''\<rparr>, s)
      | Some userId \<Rightarrow>
         (case getExpenseById (params_id req) s of
            (Inl err, s1) \<Rightarrow>
              (\<lparr>status_code = 500, payload = Message ''Failed to update expense''\<rparr>, s1)
          | (Inr None, s1) \<Rightarrow>
              (\<lparr>status_code = 404, payload = Message ''Expense not found''\<rparr>, s1)
          | (Inr (Some expense), s1) \<Rightarrow>
              if er_userId expense \<noteq> userId
              then (\<lparr>status_code = 403,
                     payload = Message ''Not authorized to update this expense''\<rparr>, s1)
              else (case updateExpense (params_id req) (body req) s1 of
                      (Inl err, s2) \<Rightarrow>
                        (\<lparr>status_code = 500, payload = Message ''Failed to update expense''\<rparr>, s2)
                    | (Inr updatedExpense, s2) \<Rightarrow>
                        (\<lparr>status_code = 200, payload = ExpenseJson updatedExpense\<rparr>, s2))))"

definition delete_expense :: "unit request \<Rightarrow> storage \<Rightarrow> response \<times> storage" where
  "delete_expense req s =
     (if \<not> isAuthenticated req then (\<lparr>status_code = 401, payload = Message ''Unauthorized''\<rparr>, s)
      else case session_user req of
        None \<Rightarrow> (\<lparr>status_code = 401, payload = Message ''User not found''\<rparr>, s)
      | Some userId \<Rightarrow>
         (case getExpenseById (params_id req) s of
            (Inl err, s1) \<Rightarrow>
              (\<lparr>status_code = 500, payload = Message ''Failed to delete expense''\<rparr>, s1)
          | (Inr None, s1) \<Rightarrow>
              (\<lparr>status_code = 404, payload = Message ''Expense not found''\<rparr>, s1)
          | (Inr (Some expense), s1) \<Rightarrow>
              if er_userId expense \<noteq> userId
              then (\<lparr>status_code = 403,
                     payload = Message ''Not authorized to delete this expense''\<rparr>, s1)
              else (case deleteExpense (params_id req) s1 of
                      (Inl err, s2) \<Rightarrow>
                        (\<lparr>status_code = 500, payload = Message ''Failed to delete expense''\<rparr>, s2)
                    | (Inr result, s2) \<Rightarrow>
                        if result then (\<lparr>status_code = 204, payload = NoContent\<rparr>, s2)
                        else (\<lparr>status_code = 500,
                               payload = Message ''Failed to delete expense''\<rparr>, s2))))"

definition put_goal :: "goal_patch request \<Rightarrow> storage \<Rightarrow> response \<times> storage" where
  "put_goal req s =
     (if \<not> isAuthenticated req then (\<lparr>status_code = 401, payload = Message ''Unauthorized''\<rparr>, s)
      else case session_user req of
        None \<Rightarrow> (\<lparr>status_code = 401, payload = Message ''User not found''\<rparr>, s)
      | Some userId \<Rightarrow>
         (case getGoalById (params_id req) s of
            (Inl err, s1) \<Rightarrow>
              (\<lparr>status_code = 500, payload = Message ''Failed to update goal''\<rparr>, s1)
          | (Inr None, s1) \<Rightarrow>
              (\<lparr>status_code = 404, payload = Message ''Goal not found''\<rparr>, s1)
          | (Inr (Some goal), s1) \<Rightarrow>
              if gr_userId goal \<noteq> userId
              then (\<lparr>status_code = 403,
                     payload = Message ''Not authorized to update this goal''\<rparr>, s1)
              else (case updateGoal (params_id req) (body req) s1 of
                      (Inl err, s2) \<Rightarrow>
                        (\<lparr>status_code = 500, payload = Message ''Failed to update goal''\<rparr>, s2)
                    | (Inr updatedGoal, s2) \<Rightarrow>
                        (\<lparr>status_code = 200, payload = GoalJson updatedGoal\<rparr>, s2))))"

definition delete_goal :: "unit request \<Rightarrow> storage \<Rightarrow> response \<times> storage" where
  "delete_goal req s =
     (if \<not> isAuthenticated req then (\<lparr>status_code = 401, payload = Message ''Unauthorized''\<rparr>, s)
      else case session_user req of
        None \<Rightarrow> (\<lparr>status_code = 401, payload = Message ''User not found''\<rparr>, s)
      | Some userId \<Rightarrow>
         (case getGoalById (params_id req) s of
            (Inl err, s1) \<Rightarrow>
              (\<lparr>status_code = 500, payload = Message ''Failed to delete goal''\<rparr>, s1)
          | (Inr None, s1) \<Rightarrow>
              (\<lparr>status_code = 404, payload = Message ''Goal not found''\<rparr>, s1)
          | (Inr (Some goal), s1) \<Rightarrow>
              if gr_userId goal \<noteq> userId
              then (\<lparr>status_code = 403,
                     payload = Message ''Not authorized to delete this goal''\<rparr>, s1)
              else (case deleteGoal (params_id req) s1 of
                      (Inl err, s2) \<Rightarrow>
                        (\<lparr>status_code = 500, payload = Message ''Failed to delete goal''\<rparr>, s2)
                    | (Inr result, s2) \<Rightarrow>
                        if result then (\<lparr>status_code = 204, payload = NoContent\<rparr>, s2)
                        else (\<lparr>status_code = 500,
                               payload = Message ''Failed to delete goal''\<rparr>, s2))))"

section \<open>Vocabulary for the properties of the routes\<close>

text \<open>
  A request that was refused before any change: the tables and the serial are as
  before, and the one call that reached the data layer is the lookup \<open>c\<close>.
\<close>

definition only_looked_up :: "storage_call \<Rightarrow> storage \<Rightarrow> storage \<Rightarrow> bool" where
  "only_looked_up c s s' =
     (expenses_table s' = expenses_table s \<and> goals_table s' = goals_table s
      \<and> next_expense_id s' = next_expense_id s \<and> calls s' = calls s @ [c])"

text \<open>
  The number a submitted amount stands for: a number itself, a text through
  \<^verbatim>\<open>parseFloat\<close>; anything else is no number.
\<close>

definition amount_number :: "(string \<Rightarrow> jsnum) \<Rightarrow> jsval \<Rightarrow> jsnum option" where
  "amount_number parseFloat v =
     (case v of Number n \<Rightarrow> Some n | String t \<Rightarrow> Some (parseFloat t) | _ \<Rightarrow> None)"

definition amount_positive :: "(string \<Rightarrow> jsnum) \<Rightarrow> jsval \<Rightarrow> bool" where
  "amount_positive parseFloat v =
     (case amount_number parseFloat v of Some n \<Rightarrow> js_gt n 0 | None \<Rightarrow> False)"

definition amount_at_least_cent :: "(string \<Rightarrow> jsnum) \<Rightarrow> jsval \<Rightarrow> bool" where
  "amount_at_least_cent parseFloat v =
     (case amount_number parseFloat v of Some n \<Rightarrow> js_ge n (1 / 100) | None \<Rightarrow> False)"

definition is_text :: "jsval \<Rightarrow> bool" where
  "is_text v = (case v of String t \<Rightarrow> True | _ \<Rightarrow> False)"

section \<open>Vocabulary of the properties\<close>

text \<open>
  The sum of the amounts of one category, added in the order of the list from 0 in the
  arithmetic of the runtime; the sum of a list of numbers, likewise; and the percentage
  of a part in a total.
\<close>

definition js_sum :: "runtime \<Rightarrow> jsnum list \<Rightarrow> jsnum" where
  "js_sum R xs = foldl (js_add R) (Fin 0) xs"







text \<open>
  The total of one calendar month: the sum of the amounts of the expenses whose date,
  read in local time, falls in that month; the month of a reference date and the month
  before it. A reference date is the local day of a \<^verbatim>\<open>Date\<close> object, so its month is one of
  the twelve.
\<close>

definition month_total :: "runtime \<Rightarrow> Expense list \<Rightarrow> int \<times> int \<Rightarrow> jsnum" where
  "month_total R es ym =
     js_sum R (map (\<lambda>e. Number_of R (amount e))
       (filter (\<lambda>e. getFullYear (local_day R (date e)) = fst ym
                    \<and> getMonth (local_day R (date e)) = snd ym) es))"

definition current_month :: "calendar_date \<Rightarrow> int \<times> int" where
  "current_month today = (getFullYear today, getMonth today)"

definition previous_month :: "calendar_date \<Rightarrow> int \<times> int" where
  "previous_month today =
     (if getMonth today = 0 then (getFullYear today - 1, 11)
      else (getFullYear today, getMonth today - 1))"

definition valid_month :: "calendar_date \<Rightarrow> bool" where
  "valid_month today = (1 \<le> month today \<and> month today \<le> 12)"

definition change_percentage :: "runtime \<Rightarrow> jsnum \<Rightarrow> jsnum \<Rightarrow> jsnum" where
  "change_percentage R current previous =
     js_mul R (js_div R (js_sub R current previous) previous) (Fin 100)"

text \<open>
  The average of one weekday: the sum of the amounts of the expenses that fall on it in
  local time, divided by their number, and 0 when there is none.
\<close>

definition weekday_expenses :: "runtime \<Rightarrow> Expense list \<Rightarrow> nat \<Rightarrow> Expense list" where
  "weekday_expenses R es i = filter (\<lambda>e. getDay (local_day R (date e)) = i) es"

definition weekday_average :: "runtime \<Rightarrow> Expense list \<Rightarrow> nat \<Rightarrow> jsnum" where
  "weekday_average R es i =
     (if weekday_expenses R es i = [] then Fin 0
      else js_div R (js_sum R (map (\<lambda>e. Number_of R (amount e)) (weekday_expenses R es i)))
             (Fin (of_nat (length (weekday_expenses R es i)))))"






text \<open>
  Day \<open>i\<close> is the earliest that attains the maximum \<open>h\<close> of the averages: its average is
  \<open>h\<close>, no average exceeds \<open>h\<close>, and no earlier day has the average \<open>h\<close>.
\<close>

definition earliest_highest :: "jsnum list \<Rightarrow> nat \<Rightarrow> jsnum \<Rightarrow> bool" where
  "earliest_highest avgs i h =
     (i < length avgs \<and> avgs ! i = h
      \<and> (\<forall>j < length avgs. \<not> js_less h (avgs ! j))
      \<and> (\<forall>j < i. avgs ! j \<noteq> h))"

definition some_positive :: "jsnum list \<Rightarrow> bool" where
  "some_positive avgs = list_ex (\<lambda>a. js_less (Fin 0) a) avgs"

text \<open>
  A store with one expense and one goal, both of user 1, and requests of user 2 and of
  user 1. The example bodies carry numbers, so the \<^verbatim>\<open>parseFloat\<close> of the examples is never
  asked; it reads no text as a number.
\<close>

definition reads_nothing :: "string \<Rightarrow> jsnum" where
  "reads_nothing t = NaN"

definition lunch_row :: expense_row where
  "lunch_row =
     \<lparr> er_id = 1, er_userId = 1, er_amount = String_of (Fin 12), er_category = ''Food'',
       er_description = Some ''lunch'', er_note = None, er_date = ''2024-03-05'' \<rparr>"

definition holiday_row :: goal_row where
  "holiday_row =
     \<lparr> gr_id = 1, gr_userId = 1, gr_name = ''Holiday'',
       gr_targetAmount = String_of (Fin 1000), gr_currentAmount = String_of (Fin 900),
       gr_targetDate = None, gr_status = ''on_track'' \<rparr>"

definition example_storage :: storage where
  "example_storage =
     \<lparr> expenses_table = [lunch_row], goals_table = [holiday_row], next_expense_id = 2,
       available = True, calls = [] \<rparr>"

definition refund_patch :: expense_patch where
  "refund_patch =
     \<lparr> ep_userId = None, ep_amount = Some (String_of (Fin (- 5))),
       ep_category = Some ''Gambling'', ep_description = None, ep_note = None,
       ep_date = None \<rparr>"

definition funds_patch :: goal_patch where
  "funds_patch =
     \<lparr> gp_userId = None, gp_name = None, gp_targetAmount = None,
       gp_currentAmount = Some (String_of (Fin 1000)), gp_targetDate = None,
       gp_status = Some ''completed'' \<rparr>"

definition request_of :: "int \<Rightarrow> int \<Rightarrow> 'b \<Rightarrow> 'b request" where
  "request_of uid i b = \<lparr> isAuthenticated = True, user = Some uid, params_id = i, body = b \<rparr>"

definition gambling_body :: expense_body where
  "gambling_body =
     \<lparr> body_amount = Number (Fin 25), body_category = String ''Gambling'',
       body_description = Undefined, body_note = Null, body_date = String ''2024-03-15'' \<rparr>"

definition zero_amount_body :: expense_body where
  "zero_amount_body =
     \<lparr> body_amount = Number (Fin 0), body_category = String ''Food'',
       body_description = Undefined, body_note = Undefined,
       body_date = String ''2024-03-15'' \<rparr>"

section \<open>Runtimes and example inputs\<close>

text \<open>
  Double arithmetic in a time zone at or east of UTC, where a date text falls on its own
  day, and in one west of UTC, where it falls on the day before; and exact arithmetic.
\<close>

definition ieee_runtime :: runtime where
  "ieee_runtime = \<lparr> to_double = binary64, local_day = (\<lambda>d. d) \<rparr>"

definition western_runtime :: runtime where
  "western_runtime = \<lparr> to_double = binary64, local_day = day_before \<rparr>"


definition expense_on :: "calendar_date \<Rightarrow> rat \<Rightarrow> string \<Rightarrow> Expense" where
  "expense_on d a c =
     \<lparr> expense_id = 1, expense_userId = 1, amount = Fin a, category = c,
       description = None, expense_note = None, date = d \<rparr>"

definition T0 :: calendar_date where
  "T0 = \<lparr> year = 2024, month = 3, day = 10 \<rparr>"





definition huge_expenses :: "Expense list" where
  "huge_expenses = [expense_on T0 (10 ^ 308) ''Food'', expense_on T0 (10 ^ 308) ''Bills'']"

text \<open>
  Weekday inputs: 7 January 2024 is a Sunday, 8 and 15 January are Mondays.
\<close>

definition sunday_7 :: calendar_date where
  "sunday_7 = \<lparr> year = 2024, month = 1, day = 7 \<rparr>"

definition monday_8 :: calendar_date where
  "monday_8 = \<lparr> year = 2024, month = 1, day = 8 \<rparr>"

definition monday_15 :: calendar_date where
  "monday_15 = \<lparr> year = 2024, month = 1, day = 15 \<rparr>"

definition close_week :: "Expense list" where
  "close_week =
     [expense_on sunday_7 (3 / 20) ''Food'', expense_on monday_8 (1 / 10) ''Food'',
      expense_on monday_15 (1 / 5) ''Food'']"

definition sunday_refund :: "Expense list" where
  "sunday_refund = [expense_on sunday_7 (- 5) ''Food'']"

definition refund_week :: "Expense list" where
  "refund_week = [expense_on sunday_7 (- 5) ''Food'', expense_on monday_8 10 ''Food'']"

text \<open>Monthly inputs, seen on 15 March 2024.\<close>

definition mid_march :: calendar_date where
  "mid_march = \<lparr> year = 2024, month = 3, day = 15 \<rparr>"

definition february_20 :: calendar_date where
  "february_20 = \<lparr> year = 2024, month = 2, day = 20 \<rparr>"

definition march_10 :: calendar_date where
  "march_10 = \<lparr> year = 2024, month = 3, day = 10 \<rparr>"

definition march_1 :: calendar_date where
  "march_1 = \<lparr> year = 2024, month = 3, day = 1 \<rparr>"

definition february_and_march :: "Expense list" where
  "february_and_march =
     [expense_on february_20 100 ''Food'', expense_on march_10 150 ''Food'']"

definition uneven_months :: "Expense list" where
  "uneven_months = [expense_on february_20 200 ''Food'', expense_on march_10 229 ''Food'']"

definition first_of_march :: "Expense list" where
  "first_of_march = [expense_on march_1 50 ''Food'']"




section \<open>Properties of the rounding to doubles\<close>

lemma pow2_powi: "pow2 k = 2 powi k"
  by (simp add: pow2_def power_int_def inverse_eq_divide power_one_over)

lemma pow2_mono: "e \<le> e' \<Longrightarrow> pow2 e \<le> pow2 e'"
  by (simp add: pow2_powi power_int_increasing)

lemma pow2_pos [simp]: "0 < pow2 e"
  by (simp add: pow2_powi)

lemma pow2_add: "pow2 (a + b) = pow2 a * pow2 b"
  by (simp add: pow2_powi power_int_add)

lemma filter_upto_downward:
  fixes l e u :: int
  assumes "l \<le> e" and "e \<le> u" and "\<And>k. k \<le> e \<Longrightarrow> P k" and "\<And>k. e < k \<Longrightarrow> \<not> P k"
  shows "filter P [l..u] = [l..e]"
proof -
  have split: "[l..u] = [l..e] @ [e + 1..u]"
    using assms(1,2) by (rule upto_split2)
  have low: "filter P [l..e] = [l..e]"
    using assms(3) by (simp add: filter_id_conv)
  have high: "filter P [e + 1..u] = []"
    using assms(4) by (simp add: filter_empty_conv)
  show ?thesis
    by (simp only: split filter_append low high append_Nil2)
qed

lemma filter_upto_none:
  fixes l u :: int
  assumes "\<And>k. l \<le> k \<Longrightarrow> \<not> P k"
  shows "filter P [l..u] = []"
  using assms by (simp add: filter_empty_conv)

lemma last_upto: "(l::int) \<le> e \<Longrightarrow> last [l..e] = e"
  by (simp add: upto_rec2)

lemma exponent_of_eq:
  assumes "pow2 e \<le> a" and "a < pow2 (e + 1)" and "- 1022 \<le> e" and "e \<le> 1023"
  shows "exponent_of a = e"
proof -
  have below: "\<And>k. k \<le> e \<Longrightarrow> pow2 k \<le> a"
    using assms(1) pow2_mono by (blast intro: order_trans)
  have above: "\<And>k. e < k \<Longrightarrow> \<not> pow2 k \<le> a"
  proof
    fix k assume "e < k" "pow2 k \<le> a"
    then have "pow2 (e + 1) \<le> a" using pow2_mono [of "e + 1" k] by linarith
    with assms(2) show False by simp
  qed
  have "filter (\<lambda>k. pow2 k \<le> a) [- 1022..1023] = [- 1022..e]"
    using assms(3,4) below above by (rule filter_upto_downward)
  moreover have "[- 1022..e] \<noteq> []" using assms(3) by (simp only: upto_Nil not_less)
  moreover have "last [- 1022..e] = e" using assms(3) by (rule last_upto)
  ultimately show ?thesis
    unfolding exponent_of_def Let_def by (simp only: if_False)
qed

lemma exponent_of_small:
  assumes "a < pow2 (- 1022)"
  shows "exponent_of a = - 1022"
proof -
  have "\<And>k. - 1022 \<le> k \<Longrightarrow> \<not> pow2 k \<le> a"
  proof
    fix k :: int assume "- 1022 \<le> k" "pow2 k \<le> a"
    then have "pow2 (- 1022) \<le> a" using pow2_mono [of "- 1022" k] by linarith
    with assms show False by simp
  qed
  then have "filter (\<lambda>k. pow2 k \<le> a) [- 1022..1023] = []"
    by (rule filter_upto_none)
  then show ?thesis
    unfolding exponent_of_def Let_def by (simp only: refl if_True)
qed

lemma floor_rat_numeral: "\<lfloor>numeral a / numeral b :: rat\<rfloor> = numeral a div numeral b"
  by (metis floor_divide_of_int_eq of_int_numeral)

lemma binary64_positive:
  assumes "pow2 e \<le> r" and "r < pow2 (e + 1)" and "- 1022 \<le> e" and "e \<le> 1023"
    and "m = of_int (round_half_even (r / pow2 (e - 52))) * pow2 (e - 52)"
    and "m < pow2 1024"
  shows "binary64 r = Fin m"
proof -
  have "0 < r" using assms(1) pow2_pos [of e] by linarith
  then show ?thesis
    using assms(5,6) exponent_of_eq [OF assms(1-4)]
    by (simp add: binary64_def Let_def)
qed

lemma binary64_overflow:
  assumes "pow2 e \<le> r" and "r < pow2 (e + 1)" and "- 1022 \<le> e" and "e \<le> 1023"
    and "pow2 1024 \<le> of_int (round_half_even (r / pow2 (e - 52))) * pow2 (e - 52)"
  shows "binary64 r = PosInf"
proof -
  have "0 < r" using assms(1) pow2_pos [of e] by linarith
  then show ?thesis
    using assms(5) exponent_of_eq [OF assms(1-4)]
    by (simp add: binary64_def Let_def)
qed

lemma binary64_minus: "binary64 (- r) = js_neg (binary64 r)"
  by (simp add: binary64_def Let_def)

lemma floor_rat_one_numeral: "\<lfloor>1 / numeral b :: rat\<rfloor> = 1 div numeral b"
  by (metis floor_divide_of_int_eq of_int_1 of_int_numeral)

lemma js_round_0: "js_round (Fin 0) = Fin 0"
  by (simp add: floor_rat_one_numeral)

lemma binary64_0: "binary64 0 = Fin 0"
  by (simp add: binary64_def)

section \<open>Properties of the category breakdown\<close>


















lemma js_add_NaN [simp]: "js_add R NaN n = NaN"
  by (simp add: js_add_def)
















subsection \<open>The order\<close>


lemma js_less_asym: "js_less x y \<Longrightarrow> \<not> js_less y x"
  by (cases x; cases y) (auto simp: js_less_def)








lemma sorted_wrt_map_snd:
  "sorted_wrt (\<lambda>p q. P (f (snd p)) (f (snd q))) xs = sorted_wrt (\<lambda>a b. P (f a) (f b)) (map snd xs)"
  by (simp add: sorted_wrt_map)



subsection \<open>Total and percentages\<close>






lemma double_50: "binary64 50 = Fin 50"
  by (rule binary64_positive [of 5])
    (simp_all add: pow2_def round_half_even_def Let_def floor_rat_numeral)



lemma double_100: "binary64 100 = Fin 100"
  by (rule binary64_positive [of 6])
    (simp_all add: pow2_def round_half_even_def Let_def floor_rat_numeral)

lemma double_4_5: "binary64 (4 / 5) = Fin (3602879701896397 / 4503599627370496)"
  by (rule binary64_positive [of "- 1"])
    (simp_all add: pow2_def round_half_even_def Let_def floor_rat_numeral)

lemma double_1_5: "binary64 (1 / 5) = Fin (3602879701896397 / 18014398509481984)"
  by (rule binary64_positive [of "- 3"])
    (simp_all add: pow2_def round_half_even_def Let_def floor_rat_numeral)










lemma double_5: "binary64 5 = Fin 5"
  by (rule binary64_positive [of 2])
    (simp_all add: pow2_def round_half_even_def Let_def floor_rat_numeral)











subsection \<open>Exact arithmetic\<close>






















section \<open>Properties of the weekday averages\<close>

lemma double_3_20: "binary64 (3 / 20) = Fin (5404319552844595 / 36028797018963968)"
  by (rule binary64_positive [of "- 3"])
    (simp_all add: pow2_def round_half_even_def Let_def floor_rat_numeral)

lemma double_1_10: "binary64 (1 / 10) = Fin (3602879701896397 / 36028797018963968)"
  by (rule binary64_positive [of "- 4"])
    (simp_all add: pow2_def round_half_even_def Let_def floor_rat_numeral)

lemma double_3_20_again: "binary64 (5404319552844595 / 36028797018963968) = Fin (5404319552844595 / 36028797018963968)"
  by (rule binary64_positive [of "- 3"])
    (simp_all add: pow2_def round_half_even_def Let_def floor_rat_numeral)

lemma double_1_10_again: "binary64 (3602879701896397 / 36028797018963968) = Fin (3602879701896397 / 36028797018963968)"
  by (rule binary64_positive [of "- 4"])
    (simp_all add: pow2_def round_half_even_def Let_def floor_rat_numeral)

lemma double_sum_3_10: "binary64 (10808639105689191 / 36028797018963968) = Fin (1351079888211149 / 4503599627370496)"
  by (rule binary64_positive [of "- 2"])
    (simp_all add: pow2_def round_half_even_def Let_def floor_rat_numeral)

lemma double_half_sum: "binary64 (1351079888211149 / 9007199254740992) = Fin (1351079888211149 / 9007199254740992)"
  by (rule binary64_positive [of "- 3"])
    (simp_all add: pow2_def round_half_even_def Let_def floor_rat_numeral)

lemma double_10: "binary64 10 = Fin 10"
  by (rule binary64_positive [of 3])
    (simp_all add: pow2_def round_half_even_def Let_def floor_rat_numeral)

lemmas week_doubles = double_3_20 double_1_10 double_3_20_again double_1_10_again
  double_sum_3_10 double_half_sum double_10 double_1_5 double_5 binary64_0 binary64_minus

lemma highest_scan_snoc:
  "highest_scan (xs @ [x]) = highest_step (highest_scan xs) (length xs, x)"
  by (simp add: highest_scan_def)

lemma js_less_trans: "js_less x y \<Longrightarrow> js_less y z \<Longrightarrow> js_less x z"
  by (cases x; cases y; cases z) (auto simp: js_less_def)

lemma js_less_irrefl: "\<not> js_less x x"
  using js_less_asym by blast

lemma highest_scan_inv:
  "(highest_scan xs = (0, Fin 0) \<and> (\<forall>x \<in> set xs. \<not> js_less (Fin 0) x))
   \<or> (\<exists>d h. highest_scan xs = (d, h) \<and> js_less (Fin 0) h \<and> earliest_highest xs d h)"
proof (induction xs rule: rev_induct)
  case Nil
  show ?case by (simp add: highest_scan_def)
next
  case (snoc x xs)
  obtain d h where st: "highest_scan xs = (d, h)"
    by (cases "highest_scan xs")
  show ?case
  proof (cases "js_less h x")
    case True
    have new: "highest_scan (xs @ [x]) = (length xs, x)"
      using True st by (simp add: highest_scan_snoc highest_step_def)
    from snoc st have bound: "\<forall>j < length xs. \<not> js_less h (xs ! j)"
      and nonneg: "h = Fin 0 \<or> js_less (Fin 0) h"
      by (auto simp: set_conv_nth earliest_highest_def)
    have pos: "js_less (Fin 0) x"
      using nonneg True js_less_trans by blast
    have "\<not> js_less x (xs ! j) \<and> xs ! j \<noteq> x" if "j < length xs" for j
      using bound that True js_less_trans by blast
    then have "earliest_highest (xs @ [x]) (length xs) x"
      by (auto simp: earliest_highest_def nth_append less_Suc_eq js_less_irrefl)
    with pos show ?thesis
      unfolding new by blast
  next
    case False
    have same: "highest_scan (xs @ [x]) = (d, h)"
      using False st by (simp add: highest_scan_snoc highest_step_def)
    from snoc show ?thesis
    proof
      assume zero: "highest_scan xs = (0, Fin 0) \<and> (\<forall>x \<in> set xs. \<not> js_less (Fin 0) x)"
      with st False show ?thesis
        unfolding same by auto
    next
      assume "\<exists>d h. highest_scan xs = (d, h) \<and> js_less (Fin 0) h \<and> earliest_highest xs d h"
      with st have "js_less (Fin 0) h" "earliest_highest xs d h" by auto
      with False have "js_less (Fin 0) h \<and> earliest_highest (xs @ [x]) d h"
        by (auto simp: earliest_highest_def nth_append less_Suc_eq)
      then show ?thesis
        unfolding same by blast
    qed
  qed
qed

lemma nat_mod_7: "nat ((x::int) mod 7) < 7"
  by simp

lemma getDay_range: "getDay d < 7"
  unfolding getDay_def Let_def by (rule nat_mod_7)

lemma buckets_general:
  assumes "length ts = 7" and "length cs = 7" and "i < 7"
  shows "fst (foldl (add_to_weekday R) (ts, cs) es) ! i
           = foldl (js_add R) (ts ! i)
               (map (\<lambda>e. Number_of R (amount e)) (weekday_expenses R es i))
       \<and> snd (foldl (add_to_weekday R) (ts, cs) es) ! i
           = cs ! i + length (weekday_expenses R es i)
       \<and> length (fst (foldl (add_to_weekday R) (ts, cs) es)) = 7
       \<and> length (snd (foldl (add_to_weekday R) (ts, cs) es)) = 7"
  using assms
proof (induction es arbitrary: ts cs)
  case Nil
  then show ?case by (simp add: weekday_expenses_def)
next
  case (Cons e es)
  let ?d = "getDay (local_day R (date e))"
  let ?ts = "ts[?d := js_add R (ts ! ?d) (Number_of R (amount e))]"
  let ?cs = "cs[?d := cs ! ?d + 1]"
  have step: "add_to_weekday R (ts, cs) e = (?ts, ?cs)"
    by (simp add: add_to_weekday_def Let_def)
  have d: "?d < 7" by (rule getDay_range)
  from Cons.prems have "length ?ts = 7" "length ?cs = 7" by simp_all
  from Cons.IH [OF this \<open>i < 7\<close>] Cons.prems d show ?case
    by (auto simp: step weekday_expenses_def nth_list_update)
qed

lemma replicate_7: "replicate 7 x = [x, x, x, x, x, x, x]"
  by (simp add: numeral_eq_Suc)

lemma upt_7: "[0..<7] = [0, 1, 2, 3, 4, 5, 6]"
  by code_simp

lemma weekday_buckets_nth:
  assumes "i < 7"
  shows "fst (weekday_buckets R es) ! i
           = js_sum R (map (\<lambda>e. Number_of R (amount e)) (weekday_expenses R es i))"
    and "snd (weekday_buckets R es) ! i = length (weekday_expenses R es i)"
    and "length (fst (weekday_buckets R es)) = 7"
  using buckets_general [of "replicate 7 (Fin 0)" "replicate 7 0" i R es] assms
  by (simp_all add: weekday_buckets_def js_sum_def)

lemma weekdayAverages_length: "length (weekdayAverages R (weekday_buckets R es)) = 7"
  using weekday_buckets_nth(3) [of 0 R es] by (simp add: weekdayAverages_def)

lemma weekdayAverages_nth:
  assumes "i < 7"
  shows "weekdayAverages R (weekday_buckets R es) ! i = weekday_average R es i"
proof -
  have len: "length (fst (weekday_buckets R es)) = 7"
    using weekday_buckets_nth(3) [of 0 R es] by simp
  with assms have "weekdayAverages R (weekday_buckets R es) ! i
      = (if 0 < snd (weekday_buckets R es) ! i
         then js_div R (fst (weekday_buckets R es) ! i)
                (Fin (of_nat (snd (weekday_buckets R es) ! i)))
         else Fin 0)"
    by (simp add: weekdayAverages_def)
  with assms show ?thesis
    by (simp add: weekday_buckets_nth weekday_average_def)
qed

lemma weekdays_length: "length weekdays = 7"
  by (simp add: weekdays_def)

lemma getWeekdayData_averages:
  "weekday_averages (getWeekdayData R es) = weekdayAverages R (weekday_buckets R es)"
  by (simp add: getWeekdayData_def Let_def)

lemma getWeekdayData_highest:
  "highestDay (getWeekdayData R es)
     = weekdays ! fst (highest_scan (weekday_averages (getWeekdayData R es)))"
  "highestAvg (getWeekdayData R es) = snd (highest_scan (weekday_averages (getWeekdayData R es)))"
  by (simp_all add: getWeekdayData_def Let_def)

lemma some_positive_iff: "some_positive xs = (\<exists>x \<in> set xs. js_less (Fin 0) x)"
  by (simp add: some_positive_def list_ex_iff)

lemma highest_when_positive:
  assumes "some_positive xs"
  shows "js_less (Fin 0) (snd (highest_scan xs))
     \<and> earliest_highest xs (fst (highest_scan xs)) (snd (highest_scan xs))"
  using highest_scan_inv [of xs] assms by (auto simp: some_positive_iff)

lemma highest_when_none_positive:
  assumes "\<not> some_positive xs"
  shows "highest_scan xs = (0, Fin 0)"
proof -
  from highest_scan_inv [of xs] show ?thesis
  proof
    assume "highest_scan xs = (0, Fin 0) \<and> (\<forall>x \<in> set xs. \<not> js_less (Fin 0) x)"
    then show ?thesis by simp
  next
    assume "\<exists>d h. highest_scan xs = (d, h) \<and> js_less (Fin 0) h \<and> earliest_highest xs d h"
    then obtain d h where "js_less (Fin 0) h" "d < length xs" "xs ! d = h"
      by (auto simp: earliest_highest_def)
    then have "some_positive xs"
      by (auto simp: some_positive_iff set_conv_nth)
    with assms show ?thesis by simp
  qed
qed

lemma empty_weekdays:
  "weekday_averages (getWeekdayData R []) = replicate 7 (Fin 0)"
  "highestDay (getWeekdayData R []) = ''Sunday''"
  "highestAvg (getWeekdayData R []) = Fin 0"
  by (simp_all add: getWeekdayData_def Let_def weekday_buckets_def weekdayAverages_def
      replicate_7 upt_7 highest_scan_def highest_step_def weekdays_def js_less_def)

text \<open>
  C9. The weekday averages are seven numbers, Sunday first; the average of a weekday is
  the sum of the amounts that fall on it in local time divided by their number, in the
  arithmetic of the runtime, and 0 for a weekday without expenses. When some average is
  positive, the reported highest weekday is the earliest weekday that attains the
  maximum average, and the reported average is that maximum. When no average is
  positive, Sunday is reported with the average 0; that is the earliest weekday
  attaining the maximum exactly when Sunday's average is 0, as it is when every average
  is 0 and for the empty list.
\<close>

theorem weekday_highest:
  "length (weekday_averages (getWeekdayData R es)) = 7
   \<and> (\<forall>i < 7. weekday_averages (getWeekdayData R es) ! i = weekday_average R es i)
   \<and> (some_positive (weekday_averages (getWeekdayData R es)) \<longrightarrow>
        (\<exists>i < 7. highestDay (getWeekdayData R es) = weekdays ! i
            \<and> earliest_highest (weekday_averages (getWeekdayData R es)) i
                 (highestAvg (getWeekdayData R es))))
   \<and> (\<not> some_positive (weekday_averages (getWeekdayData R es)) \<longrightarrow>
        highestDay (getWeekdayData R es) = ''Sunday''
        \<and> highestAvg (getWeekdayData R es) = Fin 0)
   \<and> (\<not> some_positive (weekday_averages (getWeekdayData R es))
        \<and> weekday_averages (getWeekdayData R es) ! 0 = Fin 0 \<longrightarrow>
        earliest_highest (weekday_averages (getWeekdayData R es)) 0
          (highestAvg (getWeekdayData R es)))
   \<and> ((\<forall>i < 7. weekday_averages (getWeekdayData R es) ! i = Fin 0) \<longrightarrow>
        highestDay (getWeekdayData R es) = ''Sunday''
        \<and> highestAvg (getWeekdayData R es) = Fin 0)
   \<and> highestDay (getWeekdayData R []) = ''Sunday''
   \<and> highestAvg (getWeekdayData R []) = Fin 0"
proof -
  let ?avgs = "weekday_averages (getWeekdayData R es)"
  have len: "length ?avgs = 7"
    by (simp add: getWeekdayData_averages weekdayAverages_length)
  have avg: "\<forall>i < 7. ?avgs ! i = weekday_average R es i"
    by (simp add: getWeekdayData_averages weekdayAverages_nth)
  have first: "some_positive ?avgs \<longrightarrow>
        (\<exists>i < 7. highestDay (getWeekdayData R es) = weekdays ! i
            \<and> earliest_highest ?avgs i (highestAvg (getWeekdayData R es)))"
  proof
    assume "some_positive ?avgs"
    from highest_when_positive [OF this]
    have e: "earliest_highest ?avgs (fst (highest_scan ?avgs)) (snd (highest_scan ?avgs))"
      by simp
    then have "fst (highest_scan ?avgs) < 7"
      using len by (simp add: earliest_highest_def)
    with e show "\<exists>i < 7. highestDay (getWeekdayData R es) = weekdays ! i
            \<and> earliest_highest ?avgs i (highestAvg (getWeekdayData R es))"
      by (intro exI [of _ "fst (highest_scan ?avgs)"]) (simp add: getWeekdayData_highest)
  qed
  have none: "\<not> some_positive ?avgs \<longrightarrow>
        highestDay (getWeekdayData R es) = ''Sunday''
        \<and> highestAvg (getWeekdayData R es) = Fin 0"
    using highest_when_none_positive [of ?avgs]
    by (simp add: getWeekdayData_highest weekdays_def)
  have sunday: "\<not> some_positive ?avgs \<and> ?avgs ! 0 = Fin 0 \<longrightarrow>
        earliest_highest ?avgs 0 (highestAvg (getWeekdayData R es))"
  proof
    assume a: "\<not> some_positive ?avgs \<and> ?avgs ! 0 = Fin 0"
    with none have "highestAvg (getWeekdayData R es) = Fin 0" by simp
    moreover from a have "\<forall>j < length ?avgs. \<not> js_less (Fin 0) (?avgs ! j)"
      by (auto simp: some_positive_iff set_conv_nth)
    ultimately show "earliest_highest ?avgs 0 (highestAvg (getWeekdayData R es))"
      using a len by (simp add: earliest_highest_def)
  qed
  have zero: "(\<forall>i < 7. ?avgs ! i = Fin 0) \<longrightarrow>
        highestDay (getWeekdayData R es) = ''Sunday''
        \<and> highestAvg (getWeekdayData R es) = Fin 0"
  proof
    assume "\<forall>i < 7. ?avgs ! i = Fin 0"
    with len have "\<forall>a \<in> set ?avgs. a = Fin 0"
      by (auto simp: set_conv_nth)
    then have "\<not> some_positive ?avgs"
      by (auto simp: some_positive_iff js_less_def)
    with none show "highestDay (getWeekdayData R es) = ''Sunday''
        \<and> highestAvg (getWeekdayData R es) = Fin 0"
      by simp
  qed
  from len avg first none sunday zero empty_weekdays(2,3) [of R] show ?thesis
    by (intro conjI) assumption+
qed

lemma example_days:
  "getDay sunday_7 = 0"
  "getDay monday_8 = 1"
  "getDay monday_15 = 1"
  "getDay (day_before sunday_7) = 6"
  "getDay (day_before monday_8) = 0"
  "getDay (day_before monday_15) = 0"
  by (simp_all add: getDay_def month_shift_def sunday_7_def monday_8_def monday_15_def
      day_before_def)

lemmas weekday_defs = expense_on_def getWeekdayData_def Let_def
  weekday_buckets_def add_to_weekday_def weekdayAverages_def replicate_7 upt_7
  example_days js_add_def js_div_def Number_of_def

lemma close_week_averages:
  "weekday_averages (getWeekdayData ieee_runtime close_week)
     = [Fin (5404319552844595 / 36028797018963968), Fin (2702159776422298 / 18014398509481984),
        Fin 0, Fin 0, Fin 0, Fin 0, Fin 0]"
  by (simp add: close_week_def ieee_runtime_def weekday_defs week_doubles)

section \<open>Properties of the monthly comparison\<close>

lemma double_200: "binary64 200 = Fin 200"
  by (rule binary64_positive [of 7])
    (simp_all add: pow2_def round_half_even_def Let_def floor_rat_numeral)

lemma double_229: "binary64 229 = Fin 229"
  by (rule binary64_positive [of 7])
    (simp_all add: pow2_def round_half_even_def Let_def floor_rat_numeral)

lemma double_29: "binary64 29 = Fin 29"
  by (rule binary64_positive [of 4])
    (simp_all add: pow2_def round_half_even_def Let_def floor_rat_numeral)

lemma double_29_200: "binary64 (29 / 200) = Fin (5224175567749775 / 36028797018963968)"
  by (rule binary64_positive [of "- 3"])
    (simp_all add: pow2_def round_half_even_def Let_def floor_rat_numeral)

lemma double_29_200_percent: "binary64 (130604389193744375 / 9007199254740992) = Fin (8162774324609023 / 562949953421312)"
  by (rule binary64_positive [of 3])
    (simp_all add: pow2_def round_half_even_def Let_def floor_rat_numeral)

lemma double_150: "binary64 150 = Fin 150"
  by (rule binary64_positive [of 7])
    (simp_all add: pow2_def round_half_even_def Let_def floor_rat_numeral)

lemma double_1_2: "binary64 (1 / 2) = Fin (1 / 2)"
  by (rule binary64_positive [of "- 1"])
    (simp_all add: pow2_def round_half_even_def Let_def floor_rat_numeral)

lemma double_7_10: "binary64 (7 / 10) = Fin (3152519739159347 / 4503599627370496)"
  by (rule binary64_positive [of "- 1"])
    (simp_all add: pow2_def round_half_even_def Let_def floor_rat_numeral)

lemma double_sum_8_10: "binary64 (28823037615171173 / 36028797018963968) = Fin (7205759403792793 / 9007199254740992)"
  by (rule binary64_positive [of "- 1"])
    (simp_all add: pow2_def round_half_even_def Let_def floor_rat_numeral)

lemma double_900: "binary64 900 = Fin 900"
  by (rule binary64_positive [of 9])
    (simp_all add: pow2_def round_half_even_def Let_def floor_rat_numeral)

lemma double_1000: "binary64 1000 = Fin 1000"
  by (rule binary64_positive [of 9])
    (simp_all add: pow2_def round_half_even_def Let_def floor_rat_numeral)

lemmas month_doubles = double_200 double_229 double_29 double_29_200 double_29_200_percent
  double_150 double_1_2 double_7_10 double_sum_8_10 double_900 double_1000 double_100
  double_50 double_1_10 double_4_5 binary64_0 floor_rat_numeral

subsection \<open>Monthly comparison\<close>

lemma monthly_sum: "sum_amounts R (monthlyExpenses R es d) = month_total R es d"
  by (simp add: sum_amounts_def monthlyExpenses_def month_total_def js_sum_def foldl_map
      conj_commute)

lemma month_start_current:
  "valid_month today \<Longrightarrow> month_start (getFullYear today) (getMonth today) = current_month today"
  by (simp add: valid_month_def month_start_def getMonth_def current_month_def)

lemma month_start_previous:
  "valid_month today \<Longrightarrow>
   month_start (getFullYear today) (getMonth today - 1) = previous_month today"
  by (auto simp: valid_month_def month_start_def getMonth_def previous_month_def)

lemma trailing_months_length: "length (trailing_months today n) = n"
  by (simp add: trailing_months_def)

lemma trailing_months_nth:
  "k < n \<Longrightarrow> trailing_months today n ! k
     = month_start (getFullYear today) (getMonth today - int (n - Suc k))"
  by (simp add: trailing_months_def rev_nth)

lemma monthsToShow_cases:
  "tf \<noteq> OneMonth \<Longrightarrow> 2 \<le> monthsToShow tf"
  by (cases tf) simp_all

lemma last_two_totals:
  assumes "valid_month today" and "2 \<le> n"
  shows "map (month_total R es) (trailing_months today n) ! (n - 1)
           = month_total R es (current_month today)"
    and "map (month_total R es) (trailing_months today n) ! (n - 2)
           = month_total R es (previous_month today)"
proof -
  from assms(2) have "n - 1 < n" "n - 2 < n" "n - Suc (n - 1) = 0" "n - Suc (n - 2) = 1"
    by simp_all
  with assms(1) show "map (month_total R es) (trailing_months today n) ! (n - 1)
           = month_total R es (current_month today)"
    and "map (month_total R es) (trailing_months today n) ! (n - 2)
           = month_total R es (previous_month today)"
    by (simp_all add: trailing_months_length trailing_months_nth month_start_current
        month_start_previous)
qed

lemma mom_of:
  "change (getMonthlyData R tf today es)
     = fst (month_over_month R
         (map (month_total R es) (trailing_months today (monthsToShow tf))))"
  "changePercentage (getMonthlyData R tf today es)
     = snd (month_over_month R
         (map (month_total R es) (trailing_months today (monthsToShow tf))))"
  by (simp_all add: getMonthlyData_def Let_def monthly_sum)

lemma month_totals_of:
  "month_totals (getMonthlyData R tf today es)
     = map (month_total R es) (trailing_months today (monthsToShow tf))"
  by (simp add: getMonthlyData_def Let_def monthly_sum)

lemma mom_one_month:
  "changePercentage (getMonthlyData R OneMonth today es) = Fin 0"
  "change (getMonthlyData R OneMonth today es) = Fin 0"
  by (simp_all add: mom_of month_over_month_def trailing_months_length)

lemma mom_previous_not_positive:
  assumes "valid_month today" and "\<not> js_less (Fin 0) (month_total R es (previous_month today))"
  shows "changePercentage (getMonthlyData R tf today es) = Fin 0
       \<and> change (getMonthlyData R tf today es) = Fin 0"
proof (cases "tf = OneMonth")
  case True
  then show ?thesis by (simp add: mom_one_month)
next
  case False
  then have n: "2 \<le> monthsToShow tf" by (rule monthsToShow_cases)
  from last_two_totals(2) [OF assms(1) n, of R es] assms(2) show ?thesis
    by (simp add: mom_of month_over_month_def trailing_months_length Let_def)
qed

lemma mom_previous_positive:
  assumes "valid_month today" and "tf \<noteq> OneMonth"
    and "js_less (Fin 0) (month_total R es (previous_month today))"
  shows "changePercentage (getMonthlyData R tf today es)
           = js_round (change_percentage R (month_total R es (current_month today))
                        (month_total R es (previous_month today)))"
    and "change (getMonthlyData R tf today es)
           = js_sub R (month_total R es (current_month today))
               (month_total R es (previous_month today))"
proof -
  from assms(2) have n: "2 \<le> monthsToShow tf" by (rule monthsToShow_cases)
  from last_two_totals [OF assms(1) n, of R es] assms(3) n
  show "changePercentage (getMonthlyData R tf today es)
           = js_round (change_percentage R (month_total R es (current_month today))
                        (month_total R es (previous_month today)))"
    and "change (getMonthlyData R tf today es)
           = js_sub R (month_total R es (current_month today))
               (month_total R es (previous_month today))"
    by (simp_all add: mom_of month_over_month_def trailing_months_length Let_def
        change_percentage_def)
qed

lemma summary_totals:
  assumes "valid_month today"
  shows "currentMonthTotal (SummaryCards R today es goals)
           = month_total R es (current_month today)"
    and "lastMonthTotal (SummaryCards R today es goals)
           = month_total R es (previous_month today)"
  using assms
  by (simp_all add: SummaryCards_def Let_def monthly_sum month_start_previous current_month_def)

lemma summary_difference:
  assumes "valid_month today"
  shows "spendingDifference (SummaryCards R today es goals)
           = (if \<not> falsy_number (month_total R es (previous_month today))
              then change_percentage R (month_total R es (current_month today))
                     (month_total R es (previous_month today))
              else Fin 0)"
    and "shownDifference (SummaryCards R today es goals)
           = js_abs (js_round (spendingDifference (SummaryCards R today es goals)))"
  using assms
  by (simp_all add: SummaryCards_def Let_def monthly_sum month_start_previous current_month_def
      change_percentage_def)

text \<open>
  C5. For every runtime, reference date and list of expenses, with the totals of the
  current and the previous calendar month added up in the arithmetic of the runtime
  over the expenses whose date falls in that month in local time: the percentage change
  of the insights trend is 0 whenever the previous month's total is 0, whatever the
  current month's total; when the trend shows at least two months (every time filter
  but the one-month filter) and the previous month's total is positive, it is
  \<^verbatim>\<open>Math.round(((current - previous) / previous) * 100)\<close> computed in that arithmetic; with
  the one-month filter the trend holds a single month and the change is 0. The summary
  cards compute the totals of the same two months; their difference is 0 when the
  previous total is 0 and the unrounded \<^verbatim>\<open>((current - previous) / previous) * 100\<close> when
  it is positive, shown as the absolute value of its rounding.
\<close>

theorem month_over_month_change:
  assumes "valid_month today"
  shows "(month_total R es (previous_month today) = Fin 0 \<longrightarrow>
            changePercentage (getMonthlyData R tf today es) = Fin 0)
       \<and> (tf \<noteq> OneMonth \<and> js_less (Fin 0) (month_total R es (previous_month today)) \<longrightarrow>
            changePercentage (getMonthlyData R tf today es)
              = js_round (change_percentage R (month_total R es (current_month today))
                           (month_total R es (previous_month today))))
       \<and> changePercentage (getMonthlyData R OneMonth today es) = Fin 0
       \<and> currentMonthTotal (SummaryCards R today es goals)
            = month_total R es (current_month today)
       \<and> lastMonthTotal (SummaryCards R today es goals)
            = month_total R es (previous_month today)
       \<and> (month_total R es (previous_month today) = Fin 0 \<longrightarrow>
            spendingDifference (SummaryCards R today es goals) = Fin 0)
       \<and> (js_less (Fin 0) (month_total R es (previous_month today)) \<longrightarrow>
            spendingDifference (SummaryCards R today es goals)
              = change_percentage R (month_total R es (current_month today))
                  (month_total R es (previous_month today)))
       \<and> shownDifference (SummaryCards R today es goals)
            = js_abs (js_round (spendingDifference (SummaryCards R today es goals)))"
proof -
  have a: "month_total R es (previous_month today) = Fin 0 \<longrightarrow>
            changePercentage (getMonthlyData R tf today es) = Fin 0"
    using mom_previous_not_positive [OF assms, of R es tf] by (simp add: js_less_def)
  have b: "tf \<noteq> OneMonth \<and> js_less (Fin 0) (month_total R es (previous_month today)) \<longrightarrow>
            changePercentage (getMonthlyData R tf today es)
              = js_round (change_percentage R (month_total R es (current_month today))
                           (month_total R es (previous_month today)))"
    using mom_previous_positive(1) [OF assms] by blast
  have c: "changePercentage (getMonthlyData R OneMonth today es) = Fin 0"
    by (rule mom_one_month)
  note d = summary_totals [OF assms, of R es goals]
  have e: "month_total R es (previous_month today) = Fin 0 \<longrightarrow>
            spendingDifference (SummaryCards R today es goals) = Fin 0"
    by (simp add: summary_difference(1) [OF assms] falsy_number_def)
  have f: "js_less (Fin 0) (month_total R es (previous_month today)) \<longrightarrow>
            spendingDifference (SummaryCards R today es goals)
              = change_percentage R (month_total R es (current_month today))
                  (month_total R es (previous_month today))"
    by (auto simp: summary_difference(1) [OF assms] falsy_number_def js_less_def)
  note g = summary_difference(2) [OF assms, of R es goals]
  from a b c d e f g show ?thesis
    by (intro conjI) assumption+
qed

lemmas month_defs = valid_month_def mid_march_def february_20_def march_10_def march_1_def
  expense_on_def month_total_def previous_month_def current_month_def getMonth_def
  getFullYear_def js_sum_def js_add_def Number_of_def day_before_def days_in_month_def
  leap_year_def

lemma uneven_months_totals:
  "valid_month mid_march"
  "month_total ieee_runtime uneven_months (previous_month mid_march) = Fin 200"
  "month_total ieee_runtime uneven_months (current_month mid_march) = Fin 229"
  by (simp_all add: uneven_months_def ieee_runtime_def month_defs month_doubles)

lemma uneven_change:
  "change_percentage ieee_runtime (Fin 229) (Fin 200)
     = Fin (8162774324609023 / 562949953421312)"
  by (simp add: change_percentage_def js_sub_def js_add_def js_div_def js_mul_def
      ieee_runtime_def month_doubles)

lemma february_and_march_totals:
  "month_total ieee_runtime february_and_march (previous_month mid_march) = Fin 100"
  "month_total ieee_runtime february_and_march (current_month mid_march) = Fin 150"
  "change_percentage ieee_runtime (Fin 150) (Fin 100) = Fin 50"
  by (simp_all add: february_and_march_def ieee_runtime_def month_defs month_doubles
      change_percentage_def js_sub_def js_div_def js_mul_def)

lemma first_of_march_totals:
  "month_total ieee_runtime first_of_march (current_month mid_march) = Fin 50"
  "month_total western_runtime first_of_march (current_month mid_march) = Fin 0"
  "month_total western_runtime first_of_march (previous_month mid_march) = Fin 50"
  by (simp_all add: first_of_march_def ieee_runtime_def western_runtime_def month_defs
      month_doubles)

text \<open>
  With 200 in February and 229 in March the quotient in double arithmetic is just below
  14.5 and the change is 14. An expense dated 1 March counts for March at or east of
  UTC and for February west of it.
\<close>

theorem month_over_month_change_witness:
  "valid_month mid_march
   \<and> month_total ieee_runtime uneven_months (previous_month mid_march) = Fin 200
   \<and> month_total ieee_runtime uneven_months (current_month mid_march) = Fin 229
   \<and> js_less (Fin 0) (Fin 200)
   \<and> change_percentage ieee_runtime (Fin 229) (Fin 200)
        = Fin (8162774324609023 / 562949953421312)
   \<and> changePercentage (getMonthlyData ieee_runtime ThreeMonths mid_march uneven_months) = Fin 14
   \<and> changePercentage (getMonthlyData ieee_runtime OneMonth mid_march uneven_months) = Fin 0
   \<and> spendingDifference (SummaryCards ieee_runtime mid_march uneven_months None)
        = Fin (8162774324609023 / 562949953421312)
   \<and> shownDifference (SummaryCards ieee_runtime mid_march uneven_months None) = Fin 14
   \<and> month_total western_runtime first_of_march (previous_month mid_march) = Fin 50
   \<and> month_total ieee_runtime first_of_march (current_month mid_march) = Fin 50"
  using month_over_month_change [of mid_march ieee_runtime uneven_months ThreeMonths None]
  by (simp add: uneven_months_totals uneven_change first_of_march_totals js_less_def
      floor_rat_numeral)

text \<open>
  On 15 March 2024 the one-month filter keeps the expenses since 15 February, so both
  expenses of \<open>february_and_march\<close> reach the trend; the previous month's total is
  positive and the rounded quotient is 50, yet the change reported is 0.
\<close>

theorem month_over_month_change_counterexample:
  "month_total ieee_runtime february_and_march (previous_month mid_march) = Fin 100
   \<and> month_total ieee_runtime february_and_march (current_month mid_march) = Fin 150
   \<and> js_less (Fin 0) (Fin 100)
   \<and> js_round (change_percentage ieee_runtime (Fin 150) (Fin 100)) = Fin 50
   \<and> changePercentage (getMonthlyData ieee_runtime OneMonth mid_march february_and_march)
        = Fin 0"
  by (simp add: february_and_march_totals mom_one_month js_less_def floor_rat_numeral)

section \<open>Weekday examples, empty input, and adding funds\<close>

subsection \<open>Weekday examples\<close>

lemma close_week_highest:
  "highest_scan [Fin (5404319552844595 / 36028797018963968),
       Fin (1351079888211149 / 9007199254740992), Fin 0, Fin 0, Fin 0, Fin 0, Fin 0]
     = (1, Fin (1351079888211149 / 9007199254740992))"
  by (simp add: highest_scan_def highest_step_def upt_7 js_less_def)

lemma close_week_western:
  "weekday_averages (getWeekdayData western_runtime close_week)
     = [Fin (1351079888211149 / 9007199254740992), Fin 0, Fin 0, Fin 0, Fin 0, Fin 0,
        Fin (5404319552844595 / 36028797018963968)]"
  by (simp add: close_week_def western_runtime_def weekday_defs week_doubles)

lemma close_week_western_highest:
  "highest_scan [Fin (1351079888211149 / 9007199254740992), Fin 0, Fin 0, Fin 0, Fin 0, Fin 0,
        Fin (5404319552844595 / 36028797018963968)]
     = (0, Fin (1351079888211149 / 9007199254740992))"
  by (simp add: highest_scan_def highest_step_def upt_7 js_less_def)

lemma close_week_amounts:
  "map amount close_week = [Fin (3 / 20), Fin (1 / 10), Fin (1 / 5)]"
  by (simp add: close_week_def expense_on_def)

text \<open>
  In double arithmetic the average of 0.1 and 0.2 is just above 0.15, so Monday beats a
  Sunday of 0.15. West of UTC the same date texts fall one day earlier: the Monday
  expenses count for Sunday and the Sunday expense for Saturday.
\<close>

theorem weekday_highest_witness:
  "map amount close_week = [Fin (3 / 20), Fin (1 / 10), Fin (1 / 5)]
   \<and> weekday_averages (getWeekdayData ieee_runtime close_week)
        = [Fin (5404319552844595 / 36028797018963968),
           Fin (1351079888211149 / 9007199254740992), Fin 0, Fin 0, Fin 0, Fin 0, Fin 0]
   \<and> some_positive (weekday_averages (getWeekdayData ieee_runtime close_week))
   \<and> highestDay (getWeekdayData ieee_runtime close_week) = ''Monday''
   \<and> highestAvg (getWeekdayData ieee_runtime close_week)
        = Fin (1351079888211149 / 9007199254740992)
   \<and> highestDay (getWeekdayData western_runtime close_week) = ''Sunday''
   \<and> highestAvg (getWeekdayData western_runtime close_week)
        = Fin (1351079888211149 / 9007199254740992)"
  using weekday_highest [of ieee_runtime close_week]
  by (simp add: close_week_amounts close_week_averages close_week_highest close_week_western
      close_week_western_highest getWeekdayData_highest weekdays_def some_positive_def
      js_less_def)

lemma sunday_refund_averages:
  "weekday_averages (getWeekdayData ieee_runtime sunday_refund)
     = [Fin (- 5), Fin 0, Fin 0, Fin 0, Fin 0, Fin 0, Fin 0]"
  by (simp add: sunday_refund_def ieee_runtime_def weekday_defs week_doubles)

lemma sunday_refund_highest:
  "highest_scan [Fin (- 5), Fin 0, Fin 0, Fin 0, Fin 0, Fin 0, Fin 0] = (0, Fin 0)"
  by (simp add: highest_scan_def highest_step_def upt_7 js_less_def)

text \<open>
  One expense of -5 on a Sunday (an amount an update can store): the maximum average 0
  is first attained on Monday, but the scan starts from Sunday with the average 0 and
  reports that.
\<close>

theorem weekday_highest_counterexample:
  "map amount sunday_refund = [Fin (- 5)]
   \<and> highestDay (getWeekdayData ieee_runtime sunday_refund) = ''Sunday''
   \<and> highestAvg (getWeekdayData ieee_runtime sunday_refund) = Fin 0
   \<and> weekday_averages (getWeekdayData ieee_runtime sunday_refund) ! 0 = Fin (- 5)
   \<and> weekday_averages (getWeekdayData ieee_runtime sunday_refund) ! 1 = Fin 0"
proof -
  have amounts: "map amount sunday_refund = [Fin (- 5)]"
    by (simp add: sunday_refund_def expense_on_def)
  from amounts sunday_refund_averages sunday_refund_highest show ?thesis
    by (simp add: getWeekdayData_highest weekdays_def)
qed

subsection \<open>Empty input\<close>

lemma empty_month: "sum_amounts R (monthlyExpenses R [] d) = Fin 0"
  by (simp add: sum_amounts_def monthlyExpenses_def)

lemma empty_breakdown:
  "getCategoryData R []
     = \<lparr>labels = [], data = [], percentages = [], colors = [], total = NumV (Fin 0)\<rparr>"
  "spending_getCategoryData R [] = \<lparr>chart_labels = [], chart_data = [], chart_colors = []\<rparr>"
  by (simp_all add: getCategoryData_def spending_getCategoryData_def Let_def categoryTotals_def
      sortedCategories_def sort_by_def Object_entries_def)

lemma empty_month_totals:
  "month_totals (getMonthlyData R tf today []) = replicate (monthsToShow tf) (Fin 0)"
  by (simp add: getMonthlyData_def Let_def empty_month map_replicate_const
      trailing_months_length)

lemma mom_zeros: "month_over_month R (replicate n (Fin 0)) = (Fin 0, Fin 0)"
  by (simp add: month_over_month_def Let_def js_less_def)

lemma empty_trend:
  "change (getMonthlyData R tf today []) = Fin 0"
  "changePercentage (getMonthlyData R tf today []) = Fin 0"
  "length (month_labels (getMonthlyData R tf today [])) = monthsToShow tf"
  by (simp_all add: getMonthlyData_def Let_def empty_month map_replicate_const
      trailing_months_length mom_zeros)

lemma empty_spending_trend:
  "snd (spending_getMonthlyData R today []) = replicate 6 (Fin 0)"
  by (simp add: spending_getMonthlyData_def Let_def empty_month map_replicate_const
      trailing_months_length)

lemma empty_summary:
  "currentMonthTotal (SummaryCards R today [] goals) = Fin 0"
  "lastMonthTotal (SummaryCards R today [] goals) = Fin 0"
  "spendingDifference (SummaryCards R today [] goals) = Fin 0"
  "shownDifference (SummaryCards R today [] goals) = Fin 0"
  "topCategory (SummaryCards R today [] goals) = []"
  "topCategoryAmount (SummaryCards R today [] goals) = NumV (Fin 0)"
  "topCategoryPercentage (SummaryCards R today [] goals) = Fin 0"
  by (simp_all add: SummaryCards_def Let_def monthlyExpenses_def sum_amounts_def
      categorySpending_def Object_entries_def falsy_number_def floor_rat_one_numeral)

lemma empty_goals:
  "goalsProgress (SummaryCards R today [] None) = Fin 0"
  "goalsProgress (SummaryCards R today [] (Some [])) = Fin 0"
  "monthlySavings (SummaryCards R today [] None) = Fin 0"
  "monthlySavings (SummaryCards R today [] (Some [])) = Fin 0"
  by (simp_all add: SummaryCards_def Let_def goals_sum_def js_less_def falsy_number_def
      floor_rat_one_numeral)

text \<open>
  C6. For the empty list of expenses, on every runtime, every aggregation returns empty
  sequences or zero totals and no top category: the category breakdowns are empty and
  no percentage is computed, so the unguarded division is never reached; the trends
  hold a zero for each month shown and a zero change; the weekday averages are seven
  zeros, with Sunday and the average 0 as the initial highest day; the summary cards
  show zero totals, a zero difference, the empty top category and zero percent, every
  division being behind a guard that is false. Without goals the goals progress is 0 as
  well. All functions of the model are total: none of them raises.
\<close>

theorem empty_list_aggregates:
  "getCategoryData R []
     = \<lparr>labels = [], data = [], percentages = [], colors = [], total = NumV (Fin 0)\<rparr>
   \<and> topSpendingCategory (getCategoryData R []) = None
   \<and> spending_getCategoryData R []
       = \<lparr>chart_labels = [], chart_data = [], chart_colors = []\<rparr>
   \<and> month_totals (getMonthlyData R tf today []) = replicate (monthsToShow tf) (Fin 0)
   \<and> length (month_labels (getMonthlyData R tf today [])) = monthsToShow tf
   \<and> change (getMonthlyData R tf today []) = Fin 0
   \<and> changePercentage (getMonthlyData R tf today []) = Fin 0
   \<and> snd (spending_getMonthlyData R today []) = replicate 6 (Fin 0)
   \<and> weekday_averages (getWeekdayData R []) = replicate 7 (Fin 0)
   \<and> highestDay (getWeekdayData R []) = ''Sunday''
   \<and> highestAvg (getWeekdayData R []) = Fin 0
   \<and> currentMonthTotal (SummaryCards R today [] goals) = Fin 0
   \<and> lastMonthTotal (SummaryCards R today [] goals) = Fin 0
   \<and> spendingDifference (SummaryCards R today [] goals) = Fin 0
   \<and> shownDifference (SummaryCards R today [] goals) = Fin 0
   \<and> topCategory (SummaryCards R today [] goals) = []
   \<and> topCategoryAmount (SummaryCards R today [] goals) = NumV (Fin 0)
   \<and> topCategoryPercentage (SummaryCards R today [] goals) = Fin 0
   \<and> goalsProgress (SummaryCards R today [] None) = Fin 0
   \<and> goalsProgress (SummaryCards R today [] (Some [])) = Fin 0
   \<and> monthlySavings (SummaryCards R today [] None) = Fin 0
   \<and> monthlySavings (SummaryCards R today [] (Some [])) = Fin 0"
proof -
  have top: "topSpendingCategory (getCategoryData R []) = None"
    by (simp add: empty_breakdown topSpendingCategory_def)
  from empty_breakdown [of R] top empty_month_totals [of R tf today] empty_trend [of R tf today]
    empty_spending_trend [of R today] empty_weekdays [of R] empty_summary [of R today goals]
    empty_goals [of R today]
  show ?thesis
    by (intro conjI) assumption+
qed

subsection \<open>Adding funds\<close>






section \<open>Properties of the routes\<close>

lemma only_looked_up_called: "only_looked_up c s (called c s)"
  by (simp add: only_looked_up_def called_def)

lemma session_userD: "session_user req = Some uid \<Longrightarrow> user req = Some uid \<and> uid \<noteq> 0"
  by (auto simp: session_user_def split: option.splits if_splits)

lemma put_expense_not_found:
  assumes "isAuthenticated req" and "session_user req = Some uid" and "available s"
    and "find (\<lambda>r. er_id r = params_id req) (expenses_table s) = None"
  shows "put_expense req s =
           (\<lparr>status_code = 404, payload = Message ''Expense not found''\<rparr>,
            called (GetExpenseById (params_id req)) s)"
  using assms by (simp add: put_expense_def getExpenseById_def)

lemma put_expense_forbidden:
  assumes "isAuthenticated req" and "session_user req = Some uid" and "available s"
    and "find (\<lambda>r. er_id r = params_id req) (expenses_table s) = Some e"
    and "er_userId e \<noteq> uid"
  shows "put_expense req s =
           (\<lparr>status_code = 403, payload = Message ''Not authorized to update this expense''\<rparr>,
            called (GetExpenseById (params_id req)) s)"
  using assms by (simp add: put_expense_def getExpenseById_def)

lemma delete_expense_not_found:
  assumes "isAuthenticated req" and "session_user req = Some uid" and "available s"
    and "find (\<lambda>r. er_id r = params_id req) (expenses_table s) = None"
  shows "delete_expense req s =
           (\<lparr>status_code = 404, payload = Message ''Expense not found''\<rparr>,
            called (GetExpenseById (params_id req)) s)"
  using assms by (simp add: delete_expense_def getExpenseById_def)

lemma delete_expense_forbidden:
  assumes "isAuthenticated req" and "session_user req = Some uid" and "available s"
    and "find (\<lambda>r. er_id r = params_id req) (expenses_table s) = Some e"
    and "er_userId e \<noteq> uid"
  shows "delete_expense req s =
           (\<lparr>status_code = 403, payload = Message ''Not authorized to delete this expense''\<rparr>,
            called (GetExpenseById (params_id req)) s)"
  using assms by (simp add: delete_expense_def getExpenseById_def)

lemma put_goal_not_found:
  assumes "isAuthenticated req" and "session_user req = Some uid" and "available s"
    and "find (\<lambda>r. gr_id r = params_id req) (goals_table s) = None"
  shows "put_goal req s =
           (\<lparr>status_code = 404, payload = Message ''Goal not found''\<rparr>,
            called (GetGoalById (params_id req)) s)"
  using assms by (simp add: put_goal_def getGoalById_def)

lemma put_goal_forbidden:
  assumes "isAuthenticated req" and "session_user req = Some uid" and "available s"
    and "find (\<lambda>r. gr_id r = params_id req) (goals_table s) = Some g"
    and "gr_userId g \<noteq> uid"
  shows "put_goal req s =
           (\<lparr>status_code = 403, payload = Message ''Not authorized to update this goal''\<rparr>,
            called (GetGoalById (params_id req)) s)"
  using assms by (simp add: put_goal_def getGoalById_def)

lemma delete_goal_not_found:
  assumes "isAuthenticated req" and "session_user req = Some uid" and "available s"
    and "find (\<lambda>r. gr_id r = params_id req) (goals_table s) = None"
  shows "delete_goal req s =
           (\<lparr>status_code = 404, payload = Message ''Goal not found''\<rparr>,
            called (GetGoalById (params_id req)) s)"
  using assms by (simp add: delete_goal_def getGoalById_def)

lemma delete_goal_forbidden:
  assumes "isAuthenticated req" and "session_user req = Some uid" and "available s"
    and "find (\<lambda>r. gr_id r = params_id req) (goals_table s) = Some g"
    and "gr_userId g \<noteq> uid"
  shows "delete_goal req s =
           (\<lparr>status_code = 403, payload = Message ''Not authorized to delete this goal''\<rparr>,
            called (GetGoalById (params_id req)) s)"
  using assms by (simp add: delete_goal_def getGoalById_def)

text \<open>
  C2. For an authenticated request to update or delete an expense or a goal, with the
  data layer answering: when no record has the given id the response is 404; when the
  record exists and its owning user is not the session's user the response is 403. In
  both cases the lookup is the only call that reached the data layer and every table is
  as before. The lookup comes first: a missing record is answered 404 whoever asks.
\<close>

theorem ownership_enforced:
  assumes "available s"
  shows
    "(isAuthenticated pe \<and> session_user pe = Some uid \<longrightarrow>
        (case find (\<lambda>r. er_id r = params_id pe) (expenses_table s) of
           None \<Rightarrow>
             status_code (fst (put_expense pe s)) = 404
             \<and> only_looked_up (GetExpenseById (params_id pe)) s (snd (put_expense pe s))
         | Some e \<Rightarrow>
             er_userId e \<noteq> uid \<longrightarrow>
               status_code (fst (put_expense pe s)) = 403
               \<and> only_looked_up (GetExpenseById (params_id pe)) s (snd (put_expense pe s))))
     \<and> (isAuthenticated de \<and> session_user de = Some uid \<longrightarrow>
        (case find (\<lambda>r. er_id r = params_id de) (expenses_table s) of
           None \<Rightarrow>
             status_code (fst (delete_expense de s)) = 404
             \<and> only_looked_up (GetExpenseById (params_id de)) s (snd (delete_expense de s))
         | Some e \<Rightarrow>
             er_userId e \<noteq> uid \<longrightarrow>
               status_code (fst (delete_expense de s)) = 403
               \<and> only_looked_up (GetExpenseById (params_id de)) s (snd (delete_expense de s))))
     \<and> (isAuthenticated pg \<and> session_user pg = Some uid \<longrightarrow>
        (case find (\<lambda>r. gr_id r = params_id pg) (goals_table s) of
           None \<Rightarrow>
             status_code (fst (put_goal pg s)) = 404
             \<and> only_looked_up (GetGoalById (params_id pg)) s (snd (put_goal pg s))
         | Some g \<Rightarrow>
             gr_userId g \<noteq> uid \<longrightarrow>
               status_code (fst (put_goal pg s)) = 403
               \<and> only_looked_up (GetGoalById (params_id pg)) s (snd (put_goal pg s))))
     \<and> (isAuthenticated dg \<and> session_user dg = Some uid \<longrightarrow>
        (case find (\<lambda>r. gr_id r = params_id dg) (goals_table s) of
           None \<Rightarrow>
             status_code (fst (delete_goal dg s)) = 404
             \<and> only_looked_up (GetGoalById (params_id dg)) s (snd (delete_goal dg s))
         | Some g \<Rightarrow>
             gr_userId g \<noteq> uid \<longrightarrow>
               status_code (fst (delete_goal dg s)) = 403
               \<and> only_looked_up (GetGoalById (params_id dg)) s (snd (delete_goal dg s))))"
proof (intro conjI impI)
  assume "isAuthenticated pe \<and> session_user pe = Some uid"
  then show "case find (\<lambda>r. er_id r = params_id pe) (expenses_table s) of
           None \<Rightarrow>
             status_code (fst (put_expense pe s)) = 404
             \<and> only_looked_up (GetExpenseById (params_id pe)) s (snd (put_expense pe s))
         | Some e \<Rightarrow>
             er_userId e \<noteq> uid \<longrightarrow>
               status_code (fst (put_expense pe s)) = 403
               \<and> only_looked_up (GetExpenseById (params_id pe)) s (snd (put_expense pe s))"
    using assms
    by (simp add: put_expense_not_found put_expense_forbidden only_looked_up_called
        split: option.split)
next
  assume "isAuthenticated de \<and> session_user de = Some uid"
  then show "case find (\<lambda>r. er_id r = params_id de) (expenses_table s) of
           None \<Rightarrow>
             status_code (fst (delete_expense de s)) = 404
             \<and> only_looked_up (GetExpenseById (params_id de)) s (snd (delete_expense de s))
         | Some e \<Rightarrow>
             er_userId e \<noteq> uid \<longrightarrow>
               status_code (fst (delete_expense de s)) = 403
               \<and> only_looked_up (GetExpenseById (params_id de)) s (snd (delete_expense de s))"
    using assms
    by (simp add: delete_expense_not_found delete_expense_forbidden only_looked_up_called
        split: option.split)
next
  assume "isAuthenticated pg \<and> session_user pg = Some uid"
  then show "case find (\<lambda>r. gr_id r = params_id pg) (goals_table s) of
           None \<Rightarrow>
             status_code (fst (put_goal pg s)) = 404
             \<and> only_looked_up (GetGoalById (params_id pg)) s (snd (put_goal pg s))
         | Some g \<Rightarrow>
             gr_userId g \<noteq> uid \<longrightarrow>
               status_code (fst (put_goal pg s)) = 403
               \<and> only_looked_up (GetGoalById (params_id pg)) s (snd (put_goal pg s))"
    using assms
    by (simp add: put_goal_not_found put_goal_forbidden only_looked_up_called
        split: option.split)
next
  assume "isAuthenticated dg \<and> session_user dg = Some uid"
  then show "case find (\<lambda>r. gr_id r = params_id dg) (goals_table s) of
           None \<Rightarrow>
             status_code (fst (delete_goal dg s)) = 404
             \<and> only_looked_up (GetGoalById (params_id dg)) s (snd (delete_goal dg s))
         | Some g \<Rightarrow>
             gr_userId g \<noteq> uid \<longrightarrow>
               status_code (fst (delete_goal dg s)) = 403
               \<and> only_looked_up (GetGoalById (params_id dg)) s (snd (delete_goal dg s))"
    using assms
    by (simp add: delete_goal_not_found delete_goal_forbidden only_looked_up_called
        split: option.split)
qed

lemma example_requests:
  "available example_storage"
  "isAuthenticated (request_of 2 i b)"
  "session_user (request_of 2 i b) = Some 2"
  "params_id (request_of u i b) = i"
  by (simp_all add: example_storage_def request_of_def session_user_def)

theorem ownership_enforced_witness:
  "available example_storage
   \<and> isAuthenticated (request_of 2 1 refund_patch)
   \<and> session_user (request_of 2 1 refund_patch) = Some 2
   \<and> status_code (fst (put_expense (request_of 2 1 refund_patch) example_storage)) = 403
   \<and> expenses_table (snd (put_expense (request_of 2 1 refund_patch) example_storage))
        = [lunch_row]
   \<and> calls (snd (put_expense (request_of 2 1 refund_patch) example_storage))
        = [GetExpenseById 1]
   \<and> status_code (fst (delete_expense (request_of 2 9 ()) example_storage)) = 404
   \<and> status_code (fst (put_goal (request_of 2 9 funds_patch) example_storage)) = 404
   \<and> status_code (fst (delete_goal (request_of 2 1 ()) example_storage)) = 403
   \<and> goals_table (snd (delete_goal (request_of 2 1 ()) example_storage)) = [holiday_row]
   \<and> calls (snd (delete_goal (request_of 2 1 ()) example_storage)) = [GetGoalById 1]"
proof -
  have tables: "expenses_table example_storage = [lunch_row]"
    "goals_table example_storage = [holiday_row]" "calls example_storage = []"
    by (simp_all add: example_storage_def)
  have found: "er_id lunch_row = 1" "er_userId lunch_row = 1"
    "gr_id holiday_row = 1" "gr_userId holiday_row = 1"
    by (simp_all add: lunch_row_def holiday_row_def)
  from ownership_enforced [where s = example_storage and uid = 2
      and pe = "request_of 2 1 refund_patch" and de = "request_of 2 9 ()"
      and pg = "request_of 2 9 funds_patch" and dg = "request_of 2 1 ()"]
  show ?thesis
    by (simp add: example_requests tables found only_looked_up_def)
qed

text \<open>
  The owner's update goes through, and the update route validates nothing: a negative
  amount and a category outside the fixed list are stored as sent.
\<close>

lemma owner_updates:
  "status_code (fst (put_expense (request_of 1 1 refund_patch) example_storage)) = 200
   \<and> map er_amount (expenses_table (snd (put_expense (request_of 1 1 refund_patch) example_storage)))
        = [String_of (Fin (- 5))]
   \<and> map er_category (expenses_table (snd (put_expense (request_of 1 1 refund_patch) example_storage)))
        = [''Gambling'']
   \<and> calls (snd (put_expense (request_of 1 1 refund_patch) example_storage))
        = [GetExpenseById 1, UpdateExpense 1 refund_patch]"
  by (simp add: put_expense_def request_of_def session_user_def example_storage_def
      getExpenseById_def updateExpense_def called_def lunch_row_def set_expense_def
      refund_patch_def)

section \<open>Properties of the validation\<close>

lemma js_ge_not_NaN: "js_ge n r \<Longrightarrow> n \<noteq> NaN"
  by (cases n) simp_all

lemma js_ge_cent_positive: "js_ge n (1 / 100) \<Longrightarrow> js_gt n 0"
  by (cases n) simp_all

lemma amount_schema_requestData:
  "amount_schema parseFloat (body_amount (requestData parseFloat b)) =
     (case amount_number parseFloat (body_amount b) of
        Some n \<Rightarrow> if js_ge n (1 / 100) then Some (AmountNumber n) else None
      | None \<Rightarrow> None)"
  by (cases "body_amount b")
     (auto simp: amount_schema_def requestData_def amount_number_def isNaN_def
       dest: js_ge_not_NaN)

lemma requestData_other:
  "body_category (requestData parseFloat b) = body_category b"
  "body_description (requestData parseFloat b) = body_description b"
  "body_note (requestData parseFloat b) = body_note b"
  "body_date (requestData parseFloat b) = body_date b"
  by (simp_all add: requestData_def)

lemma parse_accepts:
  assumes "insertExpenseSchema_parse parseFloat uid (requestData parseFloat b) = Inr v"
  shows "\<exists>n c. amount_number parseFloat (body_amount b) = Some n \<and> js_ge n (1 / 100)
            \<and> ie_amount v = AmountNumber n
            \<and> body_category b = String c \<and> ie_category v = c \<and> ie_userId v = uid"
proof -
  from assms obtain c d nt dt a where
    parts: "required_text (body_category b) = Some c"
      "amount_schema parseFloat (body_amount (requestData parseFloat b)) = Some a"
    and v: "v = \<lparr> ie_userId = uid, ie_category = c, ie_description = d, ie_note = nt,
                  ie_date = dt, ie_amount = a \<rparr>"
    by (auto simp: insertExpenseSchema_parse_def requestData_other
        split: option.splits prod.splits)
  from parts(1) have cat: "body_category b = String c"
    by (cases "body_category b") (simp_all add: required_text_def)
  from parts(2) obtain n where "amount_number parseFloat (body_amount b) = Some n"
      "js_ge n (1 / 100)" "a = AmountNumber n"
    by (auto simp: amount_schema_requestData split: option.splits if_splits)
  with cat v show ?thesis by simp
qed

lemma parse_rejects_amount:
  assumes "\<not> amount_at_least_cent parseFloat (body_amount b)"
  shows "\<exists>issues. insertExpenseSchema_parse parseFloat uid (requestData parseFloat b) = Inl issues"
proof -
  from assms have "amount_schema parseFloat (body_amount (requestData parseFloat b)) = None"
    by (auto simp: amount_schema_requestData amount_at_least_cent_def split: option.splits)
  then show ?thesis
    by (simp add: insertExpenseSchema_parse_def split: option.splits)
qed

lemma parse_rejects_category:
  assumes "\<not> is_text (body_category b)"
  shows "\<exists>issues. insertExpenseSchema_parse parseFloat uid (requestData parseFloat b) = Inl issues"
proof -
  from assms have "required_text (body_category (requestData parseFloat b)) = None"
    by (cases "body_category b") (simp_all add: requestData_other required_text_def is_text_def)
  then show ?thesis
    by (simp add: insertExpenseSchema_parse_def split: option.splits)
qed

lemma createExpense_row:
  assumes "createExpense v s = (Inr row, s1)"
  shows "expenses_table s1 = expenses_table s @ [row]
       \<and> er_amount row = (case ie_amount v of AmountNumber n \<Rightarrow> String_of n
                           | AmountString t \<Rightarrow> Text t)
       \<and> er_category row = ie_category v \<and> er_userId row = ie_userId v
       \<and> er_id row = next_expense_id s"
  using assms
  by (auto simp: createExpense_def Let_def called_def split: if_splits)

lemma post_created:
  assumes "status_code (fst (post_expense parseFloat req s)) = 201"
  shows "\<exists>uid v row s1. session_user req = Some uid
           \<and> insertExpenseSchema_parse parseFloat uid (requestData parseFloat (body req)) = Inr v
           \<and> createExpense v s = (Inr row, s1)
           \<and> post_expense parseFloat req s =
               (\<lparr>status_code = 201, payload = ExpenseJson (Some row)\<rparr>, s1)"
  using assms
  by (auto simp: post_expense_def split: if_splits option.splits sum.splits prod.splits)

lemma post_rejected:
  assumes "isAuthenticated req" and "session_user req = Some uid"
    and "insertExpenseSchema_parse parseFloat uid (requestData parseFloat (body req)) = Inl issues"
  shows "post_expense parseFloat req s = (\<lparr>status_code = 400, payload = InvalidData issues\<rparr>, s)"
  using assms by (simp add: post_expense_def)

text \<open>
  C3. Creation through \<^verbatim>\<open>POST /api/expenses\<close> validates the amount and the shape of the
  category only. Every expense it creates has an amount that is a number of at least
  0.01, so above 0 (a text amount is read with \<^verbatim>\<open>parseFloat\<close> first), and a category that
  is the text that was sent. An authenticated request whose amount is not such a
  number, in particular one whose amount is not a positive number, or whose category is
  not a text, is answered 400 and reaches no table. The category is not compared with the
  fixed list (see the counterexample).
\<close>

theorem created_expense_validated:
  "(status_code (fst (post_expense parseFloat req s)) = 201 \<longrightarrow>
      (\<exists>row n c. payload (fst (post_expense parseFloat req s)) = ExpenseJson (Some row)
         \<and> expenses_table (snd (post_expense parseFloat req s)) = expenses_table s @ [row]
         \<and> amount_number parseFloat (body_amount (body req)) = Some n
         \<and> er_amount row = String_of n \<and> js_ge n (1 / 100) \<and> js_gt n 0
         \<and> body_category (body req) = String c \<and> er_category row = c))
   \<and> (isAuthenticated req \<and> session_user req \<noteq> None
        \<and> \<not> amount_at_least_cent parseFloat (body_amount (body req)) \<longrightarrow>
        status_code (fst (post_expense parseFloat req s)) = 400
        \<and> snd (post_expense parseFloat req s) = s)
   \<and> (\<not> amount_positive parseFloat (body_amount (body req)) \<longrightarrow>
        \<not> amount_at_least_cent parseFloat (body_amount (body req)))
   \<and> (isAuthenticated req \<and> session_user req \<noteq> None
        \<and> \<not> is_text (body_category (body req)) \<longrightarrow>
        status_code (fst (post_expense parseFloat req s)) = 400
        \<and> snd (post_expense parseFloat req s) = s)"
proof (intro conjI impI)
  assume "status_code (fst (post_expense parseFloat req s)) = 201"
  from post_created [OF this] obtain uid v row s1 where
    parse: "insertExpenseSchema_parse parseFloat uid (requestData parseFloat (body req)) = Inr v"
    and create: "createExpense v s = (Inr row, s1)"
    and post: "post_expense parseFloat req s =
               (\<lparr>status_code = 201, payload = ExpenseJson (Some row)\<rparr>, s1)"
    by blast
  from parse_accepts [OF parse] obtain n c where
    v: "amount_number parseFloat (body_amount (body req)) = Some n" "js_ge n (1 / 100)"
      "ie_amount v = AmountNumber n" "body_category (body req) = String c" "ie_category v = c"
    by blast
  from createExpense_row [OF create] v
  have "expenses_table s1 = expenses_table s @ [row]" "er_amount row = String_of n"
    "er_category row = c"
    by simp_all
  with v post js_ge_cent_positive [OF v(2)]
  show "\<exists>row n c. payload (fst (post_expense parseFloat req s)) = ExpenseJson (Some row)
         \<and> expenses_table (snd (post_expense parseFloat req s)) = expenses_table s @ [row]
         \<and> amount_number parseFloat (body_amount (body req)) = Some n
         \<and> er_amount row = String_of n \<and> js_ge n (1 / 100) \<and> js_gt n 0
         \<and> body_category (body req) = String c \<and> er_category row = c"
    by auto
next
  assume a: "isAuthenticated req \<and> session_user req \<noteq> None
        \<and> \<not> amount_at_least_cent parseFloat (body_amount (body req))"
  then obtain uid where uid: "session_user req = Some uid" by auto
  from a parse_rejects_amount [of parseFloat "body req" uid] obtain issues where
    "insertExpenseSchema_parse parseFloat uid (requestData parseFloat (body req)) = Inl issues"
    by blast
  with a uid have "post_expense parseFloat req s
      = (\<lparr>status_code = 400, payload = InvalidData issues\<rparr>, s)"
    by (simp add: post_rejected)
  then show "status_code (fst (post_expense parseFloat req s)) = 400"
    and "snd (post_expense parseFloat req s) = s"
    by simp_all
next
  assume "\<not> amount_positive parseFloat (body_amount (body req))"
  then show "\<not> amount_at_least_cent parseFloat (body_amount (body req))"
    by (auto simp: amount_positive_def amount_at_least_cent_def
        dest: js_ge_cent_positive split: option.splits)
next
  assume a: "isAuthenticated req \<and> session_user req \<noteq> None
        \<and> \<not> is_text (body_category (body req))"
  then obtain uid where uid: "session_user req = Some uid" by auto
  from a parse_rejects_category [of "body req" parseFloat uid] obtain issues where
    "insertExpenseSchema_parse parseFloat uid (requestData parseFloat (body req)) = Inl issues"
    by blast
  with a uid have "post_expense parseFloat req s
      = (\<lparr>status_code = 400, payload = InvalidData issues\<rparr>, s)"
    by (simp add: post_rejected)
  then show "status_code (fst (post_expense parseFloat req s)) = 400"
    and "snd (post_expense parseFloat req s) = s"
    by simp_all
qed

lemma gambling_posted:
  "post_expense reads_nothing (request_of 1 0 gambling_body) example_storage =
     (\<lparr> status_code = 201,
        payload = ExpenseJson (Some
          \<lparr> er_id = 2, er_userId = 1, er_amount = String_of (Fin 25),
            er_category = ''Gambling'', er_description = None, er_note = None,
            er_date = ''2024-03-15'' \<rparr>) \<rparr>,
      \<lparr> expenses_table = [lunch_row,
          \<lparr> er_id = 2, er_userId = 1, er_amount = String_of (Fin 25),
            er_category = ''Gambling'', er_description = None, er_note = None,
            er_date = ''2024-03-15'' \<rparr>],
        goals_table = [holiday_row], next_expense_id = 3, available = True,
        calls = [CreateExpense
          \<lparr> ie_userId = 1, ie_category = ''Gambling'', ie_description = None,
            ie_note = None, ie_date = ''2024-03-15'', ie_amount = AmountNumber (Fin 25) \<rparr>] \<rparr>)"
  by (simp add: post_expense_def request_of_def session_user_def gambling_body_def
      requestData_def insertExpenseSchema_parse_def required_text_def optional_text_def
      amount_schema_def isNaN_def createExpense_def Let_def called_def example_storage_def)

theorem created_expense_validated_witness:
  "status_code (fst (post_expense reads_nothing (request_of 1 0 gambling_body)
          example_storage)) = 201
   \<and> amount_number reads_nothing (body_amount gambling_body) = Some (Fin 25)
   \<and> map er_amount (expenses_table (snd (post_expense reads_nothing
          (request_of 1 0 gambling_body) example_storage)))
        = [String_of (Fin 12), String_of (Fin 25)]
   \<and> isAuthenticated (request_of 1 0 zero_amount_body)
   \<and> session_user (request_of 1 0 zero_amount_body) = Some 1
   \<and> \<not> amount_positive reads_nothing (body_amount zero_amount_body)
   \<and> status_code (fst (post_expense reads_nothing (request_of 1 0 zero_amount_body)
          example_storage)) = 400
   \<and> snd (post_expense reads_nothing (request_of 1 0 zero_amount_body) example_storage)
        = example_storage"
proof -
  have zero: "\<not> amount_positive reads_nothing (body_amount zero_amount_body)"
    "isAuthenticated (request_of 1 0 zero_amount_body)"
    "session_user (request_of 1 0 zero_amount_body) = Some 1"
    "body (request_of 1 0 zero_amount_body) = zero_amount_body"
    by (simp_all add: amount_positive_def amount_number_def zero_amount_body_def
        request_of_def session_user_def)
  have ok: "amount_number reads_nothing (body_amount gambling_body) = Some (Fin 25)"
    by (simp add: amount_number_def gambling_body_def)
  from created_expense_validated
    [of reads_nothing "request_of 1 0 zero_amount_body" example_storage] zero
  have "status_code (fst (post_expense reads_nothing (request_of 1 0 zero_amount_body)
          example_storage)) = 400
      \<and> snd (post_expense reads_nothing (request_of 1 0 zero_amount_body) example_storage)
           = example_storage"
    by simp
  with zero ok show ?thesis
    by (simp add: gambling_posted lunch_row_def)
qed

text \<open>
  A request of user 1 for an expense of 25 in the category Gambling, which is not in the
  fixed list, is answered 201 and the row is stored.
\<close>

theorem category_not_checked_counterexample:
  "''Gambling'' \<notin> set EXPENSE_CATEGORIES
   \<and> status_code (fst (post_expense reads_nothing (request_of 1 0 gambling_body)
          example_storage)) = 201
   \<and> map er_category (expenses_table (snd (post_expense reads_nothing
          (request_of 1 0 gambling_body) example_storage))) = [''Food'', ''Gambling'']"
  by (simp add: gambling_posted EXPENSE_CATEGORIES_def lunch_row_def)

end
